theory Spec2Isabelle
  imports Main "HOL-Library.Char_ord" "HOL-Library.List_Lexorder"
begin

section \<open>Values of the relay server\<close>

text \<open>
  The development embeds the socket relay of \<^verbatim>\<open>backend/src/server.js\<close> together with
  the message schema of \<^verbatim>\<open>backend/src/models/Message.js\<close>, and the video-call handlers
  of the second copy of the server (\<^verbatim>\<open>joinVideoCallRoom\<close> and its neighbours).

  A JavaScript value that may be \<^verbatim>\<open>undefined\<close> is an \<open>option\<close>; strings are compared
  as the engine compares them, code unit by code unit, which is the lexicographic order
  on \<open>char list\<close>. An identifier a client sends is a string as sent (\<open>userId\<close>). An
  ObjectId held by the store is written as its \<^verbatim>\<open>toString()\<close>, 24 lower-case hexadecimal
  digits (\<open>objectId\<close>). A \<^verbatim>\<open>Date\<close> is a number of milliseconds.
\<close>

type_synonym socketId = string
type_synonym userId = string
type_synonym objectId = string
type_synonym date = nat

text \<open>\<^verbatim>\<open>x || d\<close> on an optional string: \<^verbatim>\<open>undefined\<close> and the empty string are falsy.\<close>

definition js_or :: "string option \<Rightarrow> string \<Rightarrow> string" where
  "js_or x d = (case x of None \<Rightarrow> d | Some v \<Rightarrow> if v = [] then d else v)"

text \<open>\<^verbatim>\<open>if (x) obj.f = x\<close> against a schema default of \<^verbatim>\<open>null\<close>, for strings and numbers.\<close>

definition truthy_str :: "string option \<Rightarrow> string option" where
  "truthy_str x = (case x of None \<Rightarrow> None | Some v \<Rightarrow> if v = [] then None else Some v)"

definition truthy_num :: "nat option \<Rightarrow> nat option" where
  "truthy_num x = (case x of None \<Rightarrow> None | Some v \<Rightarrow> if v = 0 then None else Some v)"

subsection \<open>Casting to ObjectId\<close>

text \<open>
  A path of type ObjectId takes a string of 24 hexadecimal digits, in either case, and holds
  the id it denotes; \<^verbatim>\<open>toString()\<close> of that id is the string in lower case. Any other string
  is not cast and the document fails validation, or the query throws.
\<close>

definition isHexDigit :: "char \<Rightarrow> bool" where
  "isHexDigit c = (c \<in> set ''0123456789abcdefABCDEF'')"

definition hexLower :: "char \<Rightarrow> char" where
  "hexLower c =
     (if c = CHR ''A'' then CHR ''a'' else if c = CHR ''B'' then CHR ''b''
      else if c = CHR ''C'' then CHR ''c'' else if c = CHR ''D'' then CHR ''d''
      else if c = CHR ''E'' then CHR ''e'' else if c = CHR ''F'' then CHR ''f'' else c)"

definition castObjectId :: "string \<Rightarrow> objectId option" where
  "castObjectId v = (if length v = 24 \<and> list_all isHexDigit v then Some (map hexLower v) else None)"

subsection \<open>Conversation identifiers\<close>

text \<open>
  \<^verbatim>\<open>Array.prototype.sort()\<close> without a comparator: the defined elements in ascending string
  order, then every \<^verbatim>\<open>undefined\<close>. \<^verbatim>\<open>Array.prototype.join(sep)\<close> writes \<^verbatim>\<open>undefined\<close>
  as the empty string.
\<close>

definition js_sort :: "string option list \<Rightarrow> string option list" where
  "js_sort xs = map Some (sort (concat (map (\<lambda>x. case x of None \<Rightarrow> [] | Some v \<Rightarrow> [v]) xs)))
                @ filter (\<lambda>x. x = None) xs"

fun js_join :: "string \<Rightarrow> string option list \<Rightarrow> string" where
  "js_join sep [] = []"
| "js_join sep [x] = (case x of None \<Rightarrow> [] | Some v \<Rightarrow> v)"
| "js_join sep (x # y # ys) = (case x of None \<Rightarrow> [] | Some v \<Rightarrow> v) @ sep @ js_join sep (y # ys)"

text \<open>\<^verbatim>\<open>[a, b].sort().join("-")\<close>, as both the send and the history handler write it.\<close>

definition conversationId_of :: "userId option \<Rightarrow> userId option \<Rightarrow> string" where
  "conversationId_of a b = js_join ''-'' (js_sort [a, b])"

section \<open>Data model\<close>

subsection \<open>Presence: the \<^verbatim>\<open>activeUsers\<close> map\<close>

text \<open>
  The profile a client sends with \<^verbatim>\<open>user:join\<close>. Only \<^verbatim>\<open>_id\<close> and \<^verbatim>\<open>fullName\<close> are read
  by the server; either may be missing.
\<close>

record userData =
  u_id :: "userId option"
  u_fullName :: "string option"

text \<open>The stored entry \<^verbatim>\<open>{...userData, socketId, joinedAt}\<close>.\<close>

record session =
  user_id :: "userId option"
  user_fullName :: "string option"
  socketId :: socketId
  joinedAt :: date

text \<open>
  A JavaScript \<^verbatim>\<open>Map\<close> keeps its entries in insertion order; \<^verbatim>\<open>set\<close> on a key that is
  present overwrites the value where it stands, \<^verbatim>\<open>set\<close> on a new key appends.
\<close>

fun map_set :: "('k \<times> 'v) list \<Rightarrow> 'k \<Rightarrow> 'v \<Rightarrow> ('k \<times> 'v) list" where
  "map_set [] k v = [(k, v)]"
| "map_set ((k', v') # m) k v = (if k' = k then (k, v) # m else (k', v') # map_set m k v)"

definition map_get :: "('k \<times> 'v) list \<Rightarrow> 'k \<Rightarrow> 'v option" where
  "map_get m k = map_of m k"

definition map_delete :: "('k \<times> 'v) list \<Rightarrow> 'k \<Rightarrow> ('k \<times> 'v) list" where
  "map_delete m k = filter (\<lambda>e. fst e \<noteq> k) m"

datatype exn = TypeError | ValidationError | CastError | DuplicateKey

text \<open>
  \<^verbatim>\<open>Array.from(activeUsers.entries()).find(([_, user]) => user._id.toString() === targetUserId.toString())\<close>:
  the first entry, in insertion order, whose user id is the target. \<^verbatim>\<open>toString\<close> of
  \<^verbatim>\<open>undefined\<close> throws, on either side, as soon as an entry is inspected.
\<close>

fun find_user_str :: "(socketId \<times> session) list \<Rightarrow> userId option \<Rightarrow> exn + (socketId \<times> session) option" where
  "find_user_str [] t = Inr None"
| "find_user_str ((k, u) # m) t =
     (case user_id u of
        None \<Rightarrow> Inl TypeError
      | Some i \<Rightarrow>
          (case t of
             None \<Rightarrow> Inl TypeError
           | Some t' \<Rightarrow> if i = t' then Inr (Some (k, u)) else find_user_str m t))"

text \<open>
  \<^verbatim>\<open>Array.from(activeUsers.entries()).find(([_, user]) => user._id === id.toString())\<close>, the
  lookup of the reaction, edit and delete handlers: strict equality, nothing throws.
\<close>

definition find_user_eq :: "(socketId \<times> session) list \<Rightarrow> userId \<Rightarrow> (socketId \<times> session) option" where
  "find_user_eq m i = find (\<lambda>e. user_id (snd e) = Some i) m"

subsection \<open>Messages: the schema of \<^verbatim>\<open>Message.js\<close>\<close>

record reaction =
  r_userId :: objectId
  r_emoji :: string
  r_createdAt :: date

text \<open>The path \<^verbatim>\<open>_id\<close> is \<open>m_id\<close> and the path \<^verbatim>\<open>text\<close> is \<open>m_text\<close>.\<close>

record message =
  m_id :: objectId
  senderId :: objectId
  receiverId :: objectId
  m_text :: string
  messageType :: string
  fileUrl :: "string option"
  fileName :: "string option"
  fileSize :: "nat option"
  replyTo :: "objectId option"
  reactions :: "reaction list"
  isRead :: bool
  conversationId :: string
  isEdited :: bool
  editedAt :: "date option"
  isDeleted :: bool
  deletedAt :: "date option"
  createdAt :: date
  updatedAt :: date

text \<open>The object \<^verbatim>\<open>messageData\<close> that the send handler passes to \<^verbatim>\<open>Message.create\<close>.\<close>

record messageData =
  md_senderId :: "userId option"
  md_receiverId :: "userId option"
  md_text :: "string option"
  md_conversationId :: string
  md_messageType :: string
  md_fileUrl :: "string option"
  md_fileName :: "string option"
  md_fileSize :: "nat option"
  md_replyTo :: "string option"

definition enum_messageType :: "string list" where
  "enum_messageType = [''text'', ''image'', ''file'', ''call-invite'', ''call-ended'']"

text \<open>
  \<^verbatim>\<open>required: true\<close> on a \<^verbatim>\<open>String\<close> path: the value has to be a string of positive
  length. On an ObjectId path it has to be present and to cast.
\<close>

definition required_string :: "string option \<Rightarrow> bool" where
  "required_string x = (case x of None \<Rightarrow> False | Some v \<Rightarrow> v \<noteq> [])"

definition required_objectId :: "string option \<Rightarrow> bool" where
  "required_objectId x = (case x of None \<Rightarrow> False | Some v \<Rightarrow> castObjectId v \<noteq> None)"

text \<open>An ObjectId path that is not required: left out, or present and cast.\<close>

definition cast_optional :: "string option \<Rightarrow> exn + objectId option" where
  "cast_optional x =
     (case x of
        None \<Rightarrow> Inr None
      | Some v \<Rightarrow> (case castObjectId v of None \<Rightarrow> Inl CastError | Some i \<Rightarrow> Inr (Some i)))"

text \<open>Validation of a stored document, as \<^verbatim>\<open>save()\<close> runs it.\<close>

definition valid_reaction :: "reaction \<Rightarrow> bool" where
  "valid_reaction r = (r_emoji r \<noteq> [])"

definition valid_message :: "message \<Rightarrow> bool" where
  "valid_message m =
     (m_text m \<noteq> [] \<and> conversationId m \<noteq> [] \<and> messageType m \<in> set enum_messageType
      \<and> list_all valid_reaction (reactions m))"

text \<open>
  \<^verbatim>\<open>Message.create(messageData)\<close>. The document gets the id \<open>newId\<close> that the driver
  generates for it. The sender, the receiver and the message replied to are cast to ObjectId,
  the schema's defaults fill what the draft leaves out, the timestamps option sets
  \<^verbatim>\<open>createdAt\<close> and \<^verbatim>\<open>updatedAt\<close>, and the document is validated: a path that is required
  and missing, a text that is empty, a value that does not cast and a message type outside
  the enumeration all give a validation error. The collection then refuses an id it already
  holds.
\<close>

definition Message_create :: "date \<Rightarrow> objectId \<Rightarrow> message list \<Rightarrow> messageData \<Rightarrow> exn + message" where
  "Message_create now newId db d =
     (case (md_senderId d, md_receiverId d, md_text d) of
        (Some s, Some r, Some t) \<Rightarrow>
          (case (castObjectId s, castObjectId r, cast_optional (md_replyTo d)) of
             (Some s', Some r', Inr rt) \<Rightarrow>
               (let m = \<lparr> m_id = newId, senderId = s', receiverId = r', m_text = t,
                          messageType = md_messageType d,
                          fileUrl = md_fileUrl d, fileName = md_fileName d, fileSize = md_fileSize d,
                          replyTo = rt, reactions = [], isRead = False,
                          conversationId = md_conversationId d,
                          isEdited = False, editedAt = None, isDeleted = False, deletedAt = None,
                          createdAt = now, updatedAt = now \<rparr>
                in if \<not> valid_message m then Inl ValidationError
                   else if newId \<in> set (map m_id db) then Inl DuplicateKey
                   else Inr m)
           | _ \<Rightarrow> Inl ValidationError)
      | _ \<Rightarrow> Inl ValidationError)"

text \<open>
  \<^verbatim>\<open>Message.findById(messageId)\<close>: no id finds nothing, an id that does not cast makes the
  query throw, an id that casts finds the document stored under it, if any.
\<close>

definition findById :: "message list \<Rightarrow> string option \<Rightarrow> exn + message option" where
  "findById db i =
     (case i of
        None \<Rightarrow> Inr None
      | Some v \<Rightarrow>
          (case castObjectId v of
             None \<Rightarrow> Inl CastError
           | Some j \<Rightarrow> Inr (find (\<lambda>m. m_id m = j) db)))"

text \<open>\<^verbatim>\<open>message.save()\<close>: validate, stamp \<^verbatim>\<open>updatedAt\<close>, write back under the same id.\<close>

definition Message_save :: "date \<Rightarrow> message list \<Rightarrow> message \<Rightarrow> exn + message list" where
  "Message_save now db m =
     (if valid_message m
      then Inr (map (\<lambda>x. if m_id x = m_id m then m\<lparr>updatedAt := now\<rparr> else x) db)
      else Inl ValidationError)"

text \<open>
  The collection of users is read only through \<^verbatim>\<open>populate("senderId", "fullName profilePic")\<close>,
  by the ObjectId of the sender.
\<close>

record userDoc =
  d_fullName :: string
  d_profilePic :: string

subsection \<open>Payloads received from clients\<close>

text \<open>Each record is the object a handler destructures; a field the client left out is \<open>None\<close>.\<close>

record chatData =
  c_targetUserId :: "userId option"
  c_message :: "string option"
  c_senderId :: "userId option"
  c_messageType :: "string option"
  c_fileUrl :: "string option"
  c_fileName :: "string option"
  c_fileSize :: "nat option"
  c_replyTo :: "string option"

record historyData =
  h_targetUserId :: "userId option"
  h_userId :: "userId option"
  h_limit :: "nat option"

record reactData =
  rc_messageId :: "string option"
  rc_emoji :: "string option"
  rc_userId :: "userId option"

record editData =
  e_messageId :: "string option"
  e_newText :: "string option"
  e_userId :: "userId option"

record deleteData =
  dl_messageId :: "string option"
  dl_userId :: "userId option"

record offerData =
  of_targetUserId :: "userId option"
  of_offer :: "string option"
  of_callId :: "string option"

record answerData =
  an_targetSocketId :: "socketId option"
  an_answer :: "string option"
  an_callId :: "string option"

record iceData =
  ic_targetSocketId :: "socketId option"
  ic_candidate :: "string option"
  ic_callId :: "string option"

record endData =
  en_targetSocketId :: "socketId option"
  en_callId :: "string option"

record invitationData =
  vi_targetUserId :: "userId option"
  vi_callerName :: "string option"
  vi_meetingId :: "string option"
  vi_callUrl :: "string option"

record joinRoomData =
  jr_meetingId :: string
  jr_userName :: "string option"
  jr_nativeLanguage :: "string option"

record callUserData =
  cu_userToCall :: "socketId option"
  cu_signalData :: "string option"
  cu_from :: "string option"
  cu_name :: "string option"

record answerCallData =
  ac_to :: "socketId option"
  ac_signal :: "string option"

subsection \<open>Events sent to clients\<close>

record chatMessageOut =
  o_id :: objectId
  o_message :: string
  o_senderId :: objectId
  o_senderName :: string
  o_senderPic :: string
  o_timestamp :: date
  o_conversationId :: string
  o_messageType :: string
  o_fileUrl :: "string option"
  o_fileName :: "string option"
  o_fileSize :: "nat option"
  o_replyTo :: "objectId option"
  o_reactions :: "reaction list"

record chatSentOut =
  s_id :: objectId
  s_message :: string
  s_targetUserId :: "userId option"
  s_timestamp :: date
  s_conversationId :: string
  s_messageType :: string
  s_fileUrl :: "string option"
  s_fileName :: "string option"
  s_fileSize :: "nat option"
  s_replyTo :: "objectId option"
  s_reactions :: "reaction list"

record historyItem =
  hi_id :: objectId
  hi_message :: string
  hi_senderId :: objectId
  hi_senderName :: string
  hi_senderPic :: string
  hi_timestamp :: date
  hi_conversationId :: string
  hi_messageType :: string
  hi_fileUrl :: "string option"
  hi_fileName :: "string option"
  hi_fileSize :: "nat option"
  hi_replyTo :: "objectId option"
  hi_reactions :: "reaction list"
  hi_isEdited :: bool
  hi_editedAt :: "date option"
  hi_isDeleted :: bool
  hi_deletedAt :: "date option"

datatype role = Waiter | Caller

datatype wire =
    ErrorEv string
  | UserOnline "userId option" socketId
  | UserOffline "userId option" socketId
  | ChatMessage chatMessageOut
  | ChatMessageSent chatSentOut
  | ChatHistory string "historyItem list"
  | MessageReaction "string option" "reaction list" "userId option" "string option" string
  | MessageEdited "string option" "string option" "date option" "userId option"
  | MessageDeleted "string option" "date option" "userId option"
  | WebrtcOffer "string option" "string option" "userId option" socketId
  | WebrtcAnswer "string option" "string option" socketId
  | WebrtcIceCandidate "string option" "string option" socketId
  | CallEnded "string option" socketId
  | Me socketId
  | VideoCallInvitation "string option" "string option" "string option"
  | RoomRole role "socketId option" "string option" "string option" string
  | ExpectingCallFrom socketId "string option" string
  | CallUser "string option" "string option" "string option"
  | CallAccepted "string option"
  | CallEndedAll

text \<open>
  \<^verbatim>\<open>socket.emit\<close> reaches one connection, \<^verbatim>\<open>io.to(room).emit\<close> the members of a room (every
  connection is the only member of the room named by its own id), \<^verbatim>\<open>socket.broadcast.emit\<close>
  every connection but the sender.
\<close>

datatype target = ToSocket socketId | ToRoom "string option" | BroadcastFrom socketId

type_synonym emits = "(target \<times> wire) list"

subsection \<open>Server state\<close>

text \<open>The two fields the room handler hangs on a socket object.\<close>

record videoInfo =
  videoUserName :: "string option"
  videoNativeLanguage :: "string option"

text \<open>
  \<open>rooms\<close> is \<^verbatim>\<open>io.sockets.adapter.rooms\<close>: the members of a room in the order they joined,
  the empty list for a room the adapter does not hold. \<open>sockets\<close> is \<^verbatim>\<open>io.sockets.sockets\<close>,
  the connected sockets. \<open>usersDB\<close> is the collection of users, \<open>messagesDB\<close> the collection
  of messages in insertion order.
\<close>

record state =
  activeUsers :: "(socketId \<times> session) list"
  messagesDB :: "message list"
  usersDB :: "objectId \<Rightarrow> userDoc option"
  rooms :: "string \<Rightarrow> socketId list"
  sockets :: "socketId \<Rightarrow> videoInfo option"

text \<open>
  The result of a handler body: it ran to its end, or threw. Either way it carries the state
  and the events already sent at that point.
\<close>

datatype outcome = Done "state \<times> emits" | Threw exn "state \<times> emits"

text \<open>\<^verbatim>\<open>catch (error) { console.error(...); socket.emit("error", { message }) }\<close>\<close>

definition catch_emit :: "socketId \<Rightarrow> string \<Rightarrow> outcome \<Rightarrow> state \<times> emits" where
  "catch_emit sid msg r =
     (case r of Done x \<Rightarrow> x | Threw e (s, es) \<Rightarrow> (s, es @ [(ToSocket sid, ErrorEv msg)]))"

text \<open>\<^verbatim>\<open>catch (error) { console.error(...) }\<close>\<close>

definition catch_log :: "outcome \<Rightarrow> state \<times> emits" where
  "catch_log r = (case r of Done x \<Rightarrow> x | Threw e x \<Rightarrow> x)"

section \<open>Handlers\<close>

text \<open>
  Every handler runs for the socket \<open>sid\<close> that received the event, at the clock reading
  \<open>now\<close>. A payload of \<open>None\<close> is an event sent without data: destructuring it throws.
\<close>

subsection \<open>\<^verbatim>\<open>user:join\<close>\<close>

definition user_join_body :: "socketId \<Rightarrow> date \<Rightarrow> userData option \<Rightarrow> state \<Rightarrow> outcome" where
  "user_join_body sid now userData s =
     (let entry = \<lparr> user_id = (case userData of None \<Rightarrow> None | Some u \<Rightarrow> u_id u),
                     user_fullName = (case userData of None \<Rightarrow> None | Some u \<Rightarrow> u_fullName u),
                     socketId = sid, joinedAt = now \<rparr>;
          s1 = s\<lparr>activeUsers := map_set (activeUsers s) sid entry\<rparr>
      in case userData of
           None \<Rightarrow> Threw TypeError (s1, [])
         | Some u \<Rightarrow> Done (s1, [(BroadcastFrom sid, UserOnline (u_id u) sid)]))"

definition user_join :: "socketId \<Rightarrow> date \<Rightarrow> userData option \<Rightarrow> state \<Rightarrow> state \<times> emits" where
  "user_join sid now userData s = catch_emit sid ''Failed to join'' (user_join_body sid now userData s)"

subsection \<open>\<^verbatim>\<open>chat:message\<close>\<close>

definition build_messageData :: "chatData \<Rightarrow> messageData" where
  "build_messageData d =
     \<lparr> md_senderId = c_senderId d,
       md_receiverId = c_targetUserId d,
       md_text = c_message d,
       md_conversationId = conversationId_of (c_senderId d) (c_targetUserId d),
       md_messageType = js_or (c_messageType d) ''text'',
       md_fileUrl = truthy_str (c_fileUrl d),
       md_fileName = truthy_str (c_fileName d),
       md_fileSize = truthy_num (c_fileSize d),
       md_replyTo = truthy_str (c_replyTo d) \<rparr>"

definition chat_message_out :: "message \<Rightarrow> userDoc \<Rightarrow> chatMessageOut" where
  "chat_message_out m u =
     \<lparr> o_id = m_id m, o_message = m_text m, o_senderId = senderId m,
       o_senderName = d_fullName u, o_senderPic = d_profilePic u,
       o_timestamp = createdAt m, o_conversationId = conversationId m,
       o_messageType = messageType m, o_fileUrl = fileUrl m, o_fileName = fileName m,
       o_fileSize = fileSize m, o_replyTo = replyTo m, o_reactions = reactions m \<rparr>"

definition chat_sent_out :: "message \<Rightarrow> userId option \<Rightarrow> chatSentOut" where
  "chat_sent_out m t =
     \<lparr> s_id = m_id m, s_message = m_text m, s_targetUserId = t,
       s_timestamp = createdAt m, s_conversationId = conversationId m,
       s_messageType = messageType m, s_fileUrl = fileUrl m, s_fileName = fileName m,
       s_fileSize = fileSize m, s_replyTo = replyTo m, s_reactions = reactions m \<rparr>"

text \<open>
  After the document is written the sender is populated from the collection of users; a
  sender that is not there leaves \<^verbatim>\<open>savedMessage.senderId\<close> null, and reading \<^verbatim>\<open>._id\<close> from
  it throws when the event for an online recipient is built.
\<close>

definition chat_message_body :: "socketId \<Rightarrow> date \<Rightarrow> objectId \<Rightarrow> chatData option \<Rightarrow> state \<Rightarrow> outcome" where
  "chat_message_body sid now newId data s =
     (case data of
        None \<Rightarrow> Threw TypeError (s, [])
      | Some d \<Rightarrow>
          (case Message_create now newId (messagesDB s) (build_messageData d) of
             Inl e \<Rightarrow> Threw e (s, [])
           | Inr savedMessage \<Rightarrow>
               (let s1 = s\<lparr>messagesDB := messagesDB s @ [savedMessage]\<rparr>
                in case find_user_str (activeUsers s) (c_targetUserId d) of
                     Inl e \<Rightarrow> Threw e (s1, [])
                   | Inr None \<Rightarrow>
                       Done (s1, [(ToSocket sid, ChatMessageSent (chat_sent_out savedMessage (c_targetUserId d)))])
                   | Inr (Some targetSocket) \<Rightarrow>
                       (case usersDB s (senderId savedMessage) of
                          None \<Rightarrow> Threw TypeError (s1, [])
                        | Some u \<Rightarrow>
                            Done (s1, [(ToRoom (Some (fst targetSocket)), ChatMessage (chat_message_out savedMessage u)),
                                       (ToSocket sid, ChatMessageSent (chat_sent_out savedMessage (c_targetUserId d)))])))))"

definition chat_message :: "socketId \<Rightarrow> date \<Rightarrow> objectId \<Rightarrow> chatData option \<Rightarrow> state \<Rightarrow> state \<times> emits" where
  "chat_message sid now newId data s =
     catch_emit sid ''Failed to send message'' (chat_message_body sid now newId data s)"

subsection \<open>\<^verbatim>\<open>chat:get-history\<close>\<close>

text \<open>\<^verbatim>\<open>Message.find({ conversationId })\<close>\<close>

definition Message_find :: "message list \<Rightarrow> string \<Rightarrow> message list" where
  "Message_find db c = filter (\<lambda>m. conversationId m = c) db"

text \<open>\<^verbatim>\<open>.sort({ createdAt: -1 })\<close>: most recent first.\<close>

definition sort_createdAt_desc :: "message list \<Rightarrow> message list" where
  "sort_createdAt_desc ms = rev (sort_key createdAt ms)"

text \<open>\<^verbatim>\<open>.limit(n)\<close> of the store's cursor: a limit of 0 is no limit.\<close>

definition limit_cursor :: "nat \<Rightarrow> 'a list \<Rightarrow> 'a list" where
  "limit_cursor n xs = (if n = 0 then xs else take n xs)"

text \<open>
  One entry of the reply. \<^verbatim>\<open>populate("replyTo")\<close> leaves null where the message replied to
  is not in the collection, and \<^verbatim>\<open>msg.replyTo?._id\<close> is then undefined.
\<close>

definition history_item :: "message list \<Rightarrow> message \<Rightarrow> userDoc \<Rightarrow> historyItem" where
  "history_item db m u =
     \<lparr> hi_id = m_id m, hi_message = m_text m, hi_senderId = senderId m,
       hi_senderName = d_fullName u, hi_senderPic = d_profilePic u,
       hi_timestamp = createdAt m, hi_conversationId = conversationId m,
       hi_messageType = messageType m, hi_fileUrl = fileUrl m, hi_fileName = fileName m,
       hi_fileSize = fileSize m,
       hi_replyTo =
         (case replyTo m of
            None \<Rightarrow> None
          | Some i \<Rightarrow> (case find (\<lambda>x. m_id x = i) db of None \<Rightarrow> None | Some r \<Rightarrow> Some (m_id r))),
       hi_reactions = reactions m,
       hi_isEdited = isEdited m, hi_editedAt = editedAt m,
       hi_isDeleted = isDeleted m, hi_deletedAt = deletedAt m \<rparr>"

text \<open>
  The \<^verbatim>\<open>map\<close> over the reversed result reads \<^verbatim>\<open>msg.senderId._id\<close>, which throws at the first
  message whose sender is not in the collection of users.
\<close>

fun history_items :: "(objectId \<Rightarrow> userDoc option) \<Rightarrow> message list \<Rightarrow> message list \<Rightarrow> exn + historyItem list" where
  "history_items users db [] = Inr []"
| "history_items users db (m # ms) =
     (case users (senderId m) of
        None \<Rightarrow> Inl TypeError
      | Some u \<Rightarrow>
          (case history_items users db ms of
             Inl e \<Rightarrow> Inl e
           | Inr is \<Rightarrow> Inr (history_item db m u # is)))"

definition chat_get_history_body :: "socketId \<Rightarrow> historyData option \<Rightarrow> state \<Rightarrow> outcome" where
  "chat_get_history_body sid data s =
     (case data of
        None \<Rightarrow> Threw TypeError (s, [])
      | Some d \<Rightarrow>
          (let limit = (case h_limit d of None \<Rightarrow> 50 | Some n \<Rightarrow> n);
               conversationId = conversationId_of (h_userId d) (h_targetUserId d);
               messages = limit_cursor limit (sort_createdAt_desc (Message_find (messagesDB s) conversationId))
           in case history_items (usersDB s) (messagesDB s) (rev messages) of
                Inl e \<Rightarrow> Threw e (s, [])
              | Inr items \<Rightarrow> Done (s, [(ToSocket sid, ChatHistory conversationId items)])))"

definition chat_get_history :: "socketId \<Rightarrow> historyData option \<Rightarrow> state \<Rightarrow> state \<times> emits" where
  "chat_get_history sid data s =
     catch_emit sid ''Failed to load chat history'' (chat_get_history_body sid data s)"

subsection \<open>\<^verbatim>\<open>message:react\<close>, \<^verbatim>\<open>message:edit\<close>, \<^verbatim>\<open>message:delete\<close>\<close>

text \<open>
  \<^verbatim>\<open>r.userId.toString() === userId && r.emoji === emoji\<close>: the stored id, written in lower
  case, against the id as the client sent it.
\<close>

definition same_reaction :: "userId option \<Rightarrow> string option \<Rightarrow> reaction \<Rightarrow> bool" where
  "same_reaction userId emoji r = (Some (r_userId r) = userId \<and> Some (r_emoji r) = emoji)"

text \<open>
  The two lookups that follow a successful save, and the two sends: first to the receiver
  of the message, then to its sender, each only when found in \<open>activeUsers\<close>.
\<close>

definition to_both :: "(socketId \<times> session) list \<Rightarrow> message \<Rightarrow> wire \<Rightarrow> emits" where
  "to_both users m w =
     (case find_user_eq users (receiverId m) of
        None \<Rightarrow> []
      | Some targetSocket \<Rightarrow> [(ToRoom (Some (fst targetSocket)), w)])
     @
     (case find_user_eq users (senderId m) of
        None \<Rightarrow> []
      | Some senderSocket \<Rightarrow> [(ToRoom (Some (fst senderSocket)), w)])"

text \<open>
  The toggled list of reactions. The user id of a pushed reaction is cast to ObjectId and the
  reaction takes the schema's default \<^verbatim>\<open>createdAt\<close>; one pushed without a user id, with a
  user id that does not cast, or without an emoji fails validation on save.
\<close>

definition toggle_reactions :: "date \<Rightarrow> userId option \<Rightarrow> string option \<Rightarrow> reaction list \<Rightarrow> exn + reaction list" where
  "toggle_reactions now userId emoji rs =
     (case find (same_reaction userId emoji) rs of
        Some existingReaction \<Rightarrow> Inr (filter (\<lambda>r. \<not> same_reaction userId emoji r) rs)
      | None \<Rightarrow>
          (case (userId, emoji) of
             (Some u, Some e) \<Rightarrow>
               (case castObjectId u of
                  None \<Rightarrow> Inl ValidationError
                | Some i \<Rightarrow> Inr (rs @ [\<lparr> r_userId = i, r_emoji = e, r_createdAt = now \<rparr>]))
           | _ \<Rightarrow> Inl ValidationError))"

definition message_react_body :: "socketId \<Rightarrow> date \<Rightarrow> reactData option \<Rightarrow> state \<Rightarrow> outcome" where
  "message_react_body sid now data s =
     (case data of
        None \<Rightarrow> Threw TypeError (s, [])
      | Some d \<Rightarrow>
          (case findById (messagesDB s) (rc_messageId d) of
             Inl e \<Rightarrow> Threw e (s, [])
           | Inr None \<Rightarrow> Done (s, [(ToSocket sid, ErrorEv ''Message not found'')])
           | Inr (Some message) \<Rightarrow>
               (let existingReaction = find (same_reaction (rc_userId d) (rc_emoji d)) (reactions message)
                in case toggle_reactions now (rc_userId d) (rc_emoji d) (reactions message) of
                     Inl e \<Rightarrow> Threw e (s, [])
                   | Inr rs \<Rightarrow>
                       (case Message_save now (messagesDB s) (message\<lparr>reactions := rs\<rparr>) of
                          Inl e \<Rightarrow> Threw e (s, [])
                        | Inr db \<Rightarrow>
                            Done (s\<lparr>messagesDB := db\<rparr>,
                                  to_both (activeUsers s) message
                                    (MessageReaction (rc_messageId d) rs (rc_userId d) (rc_emoji d)
                                       (if existingReaction \<noteq> None then ''removed'' else ''added'')))))))"

definition message_react :: "socketId \<Rightarrow> date \<Rightarrow> reactData option \<Rightarrow> state \<Rightarrow> state \<times> emits" where
  "message_react sid now data s =
     catch_emit sid ''Failed to add reaction'' (message_react_body sid now data s)"

text \<open>Assigning \<^verbatim>\<open>undefined\<close> to \<^verbatim>\<open>message.text\<close> fails the required rule on save, as the empty string does.\<close>

definition message_edit_body :: "socketId \<Rightarrow> date \<Rightarrow> editData option \<Rightarrow> state \<Rightarrow> outcome" where
  "message_edit_body sid now data s =
     (case data of
        None \<Rightarrow> Threw TypeError (s, [])
      | Some d \<Rightarrow>
          (case findById (messagesDB s) (e_messageId d) of
             Inl e \<Rightarrow> Threw e (s, [])
           | Inr None \<Rightarrow> Done (s, [(ToSocket sid, ErrorEv ''Message not found'')])
           | Inr (Some message) \<Rightarrow>
               if Some (senderId message) \<noteq> e_userId d
               then Done (s, [(ToSocket sid, ErrorEv ''You can only edit your own messages'')])
               else
                 (case e_newText d of
                    None \<Rightarrow> Threw ValidationError (s, [])
                  | Some newText \<Rightarrow>
                      (case Message_save now (messagesDB s)
                              (message\<lparr>m_text := newText, isEdited := True, editedAt := Some now\<rparr>) of
                         Inl e \<Rightarrow> Threw e (s, [])
                       | Inr db \<Rightarrow>
                           Done (s\<lparr>messagesDB := db\<rparr>,
                                 to_both (activeUsers s) message
                                   (MessageEdited (e_messageId d) (e_newText d) (Some now) (e_userId d)))))))"

definition message_edit :: "socketId \<Rightarrow> date \<Rightarrow> editData option \<Rightarrow> state \<Rightarrow> state \<times> emits" where
  "message_edit sid now data s =
     catch_emit sid ''Failed to edit message'' (message_edit_body sid now data s)"

definition message_delete_body :: "socketId \<Rightarrow> date \<Rightarrow> deleteData option \<Rightarrow> state \<Rightarrow> outcome" where
  "message_delete_body sid now data s =
     (case data of
        None \<Rightarrow> Threw TypeError (s, [])
      | Some d \<Rightarrow>
          (case findById (messagesDB s) (dl_messageId d) of
             Inl e \<Rightarrow> Threw e (s, [])
           | Inr None \<Rightarrow> Done (s, [(ToSocket sid, ErrorEv ''Message not found'')])
           | Inr (Some message) \<Rightarrow>
               if Some (senderId message) \<noteq> dl_userId d
               then Done (s, [(ToSocket sid, ErrorEv ''You can only delete your own messages'')])
               else
                 (case Message_save now (messagesDB s)
                         (message\<lparr>m_text := ''This message was deleted'', isDeleted := True,
                                  deletedAt := Some now\<rparr>) of
                    Inl e \<Rightarrow> Threw e (s, [])
                  | Inr db \<Rightarrow>
                      Done (s\<lparr>messagesDB := db\<rparr>,
                            to_both (activeUsers s) message
                              (MessageDeleted (dl_messageId d) (Some now) (dl_userId d))))))"

definition message_delete :: "socketId \<Rightarrow> date \<Rightarrow> deleteData option \<Rightarrow> state \<Rightarrow> state \<times> emits" where
  "message_delete sid now data s =
     catch_emit sid ''Failed to delete message'' (message_delete_body sid now data s)"

subsection \<open>Signaling relay\<close>

definition webrtc_offer_body :: "socketId \<Rightarrow> offerData option \<Rightarrow> state \<Rightarrow> outcome" where
  "webrtc_offer_body sid data s =
     (case data of
        None \<Rightarrow> Threw TypeError (s, [])
      | Some d \<Rightarrow>
          (case find_user_str (activeUsers s) (of_targetUserId d) of
             Inl e \<Rightarrow> Threw e (s, [])
           | Inr None \<Rightarrow> Done (s, [])
           | Inr (Some targetSocket) \<Rightarrow>
               Done (s, [(ToRoom (Some (fst targetSocket)),
                          WebrtcOffer (of_offer d) (of_callId d)
                            (case map_get (activeUsers s) sid of None \<Rightarrow> None | Some u \<Rightarrow> user_id u)
                            sid)])))"

definition webrtc_offer :: "socketId \<Rightarrow> offerData option \<Rightarrow> state \<Rightarrow> state \<times> emits" where
  "webrtc_offer sid data s = catch_emit sid ''Failed to send call offer'' (webrtc_offer_body sid data s)"

definition webrtc_answer_body :: "socketId \<Rightarrow> answerData option \<Rightarrow> state \<Rightarrow> outcome" where
  "webrtc_answer_body sid data s =
     (case data of
        None \<Rightarrow> Threw TypeError (s, [])
      | Some d \<Rightarrow>
          Done (s, [(ToRoom (an_targetSocketId d), WebrtcAnswer (an_answer d) (an_callId d) sid)]))"

definition webrtc_answer :: "socketId \<Rightarrow> answerData option \<Rightarrow> state \<Rightarrow> state \<times> emits" where
  "webrtc_answer sid data s = catch_emit sid ''Failed to send call answer'' (webrtc_answer_body sid data s)"

definition webrtc_ice_candidate_body :: "socketId \<Rightarrow> iceData option \<Rightarrow> state \<Rightarrow> outcome" where
  "webrtc_ice_candidate_body sid data s =
     (case data of
        None \<Rightarrow> Threw TypeError (s, [])
      | Some d \<Rightarrow>
          Done (s, [(ToRoom (ic_targetSocketId d), WebrtcIceCandidate (ic_candidate d) (ic_callId d) sid)]))"

definition webrtc_ice_candidate :: "socketId \<Rightarrow> iceData option \<Rightarrow> state \<Rightarrow> state \<times> emits" where
  "webrtc_ice_candidate sid data s = catch_log (webrtc_ice_candidate_body sid data s)"

definition call_end_body :: "socketId \<Rightarrow> endData option \<Rightarrow> state \<Rightarrow> outcome" where
  "call_end_body sid data s =
     (case data of
        None \<Rightarrow> Threw TypeError (s, [])
      | Some d \<Rightarrow> Done (s, [(ToRoom (en_targetSocketId d), CallEnded (en_callId d) sid)]))"

definition call_end :: "socketId \<Rightarrow> endData option \<Rightarrow> state \<Rightarrow> state \<times> emits" where
  "call_end sid data s = catch_log (call_end_body sid data s)"

subsection \<open>Video-call handlers\<close>

text \<open>
  These handlers destructure the payload in their parameter list, so the payload is taken as
  given; \<^verbatim>\<open>callUser\<close> and \<^verbatim>\<open>answerCall\<close> read fields of \<^verbatim>\<open>data\<close> inside the \<^verbatim>\<open>try\<close>.
\<close>

definition videoCallInvitation_body :: "socketId \<Rightarrow> invitationData \<Rightarrow> state \<Rightarrow> outcome" where
  "videoCallInvitation_body sid p s =
     (case find_user_str (activeUsers s) (vi_targetUserId p) of
        Inl e \<Rightarrow> Threw e (s, [])
      | Inr None \<Rightarrow> Done (s, [])
      | Inr (Some targetSocket) \<Rightarrow>
          Done (s, [(ToRoom (Some (fst targetSocket)),
                     VideoCallInvitation (vi_callerName p) (vi_meetingId p) (vi_callUrl p))]))"

definition videoCallInvitation :: "socketId \<Rightarrow> invitationData \<Rightarrow> state \<Rightarrow> state \<times> emits" where
  "videoCallInvitation sid p s = catch_log (videoCallInvitation_body sid p s)"

text \<open>\<^verbatim>\<open>socket.join(meetingId)\<close>: the room is a set, so joining twice changes nothing.\<close>

definition socket_join :: "socketId \<Rightarrow> string \<Rightarrow> state \<Rightarrow> state" where
  "socket_join sid room s =
     s\<lparr>rooms := (rooms s)(room := (if sid \<in> set (rooms s room) then rooms s room else rooms s room @ [sid]))\<rparr>"

text \<open>\<^verbatim>\<open>socket.videoUserName = userName; socket.videoNativeLanguage = nativeLanguage\<close>\<close>

definition store_video_info :: "socketId \<Rightarrow> joinRoomData \<Rightarrow> state \<Rightarrow> state" where
  "store_video_info sid p s =
     s\<lparr>sockets := (sockets s)(sid := Some \<lparr> videoUserName = jr_userName p,
                                             videoNativeLanguage = jr_nativeLanguage p \<rparr>)\<rparr>"

definition joinVideoCallRoom_body :: "socketId \<Rightarrow> joinRoomData \<Rightarrow> state \<Rightarrow> outcome" where
  "joinVideoCallRoom_body sid p s =
     (let s1 = socket_join sid (jr_meetingId p) s;
          roomSockets = rooms s1 (jr_meetingId p);
          roomSize = length roomSockets
      in if roomSize = 1
         then Done (store_video_info sid p s1,
                    [(ToSocket sid, RoomRole Waiter None None None ''Waiting for other participant...'')])
         else if roomSize = 2
         then
           (let s2 = store_video_info sid p s1
            in case find (\<lambda>i. i \<noteq> sid) roomSockets of
                 None \<Rightarrow> Done (s2, [])
               | Some firstPersonSocket \<Rightarrow>
                   (case sockets s1 firstPersonSocket of
                      None \<Rightarrow> Done (s2, [])
                    | Some firstSocket \<Rightarrow>
                        Done (s2, [(ToSocket sid,
                                    RoomRole Caller (Some firstPersonSocket)
                                      (Some (js_or (videoUserName firstSocket) ''Other participant''))
                                      (Some (js_or (videoNativeLanguage firstSocket) ''en-US''))
                                      ''Ready to start call''),
                                   (ToSocket firstPersonSocket,
                                    ExpectingCallFrom sid (jr_userName p)
                                      (js_or (jr_nativeLanguage p) ''en-US''))])))
         else Done (s1, []))"

definition joinVideoCallRoom :: "socketId \<Rightarrow> joinRoomData \<Rightarrow> state \<Rightarrow> state \<times> emits" where
  "joinVideoCallRoom sid p s = catch_log (joinVideoCallRoom_body sid p s)"

definition callUser_body :: "socketId \<Rightarrow> callUserData option \<Rightarrow> state \<Rightarrow> outcome" where
  "callUser_body sid data s =
     (case data of
        None \<Rightarrow> Threw TypeError (s, [])
      | Some d \<Rightarrow>
          Done (s, [(ToRoom (cu_userToCall d), CallUser (cu_signalData d) (cu_from d) (cu_name d))]))"

definition callUser :: "socketId \<Rightarrow> callUserData option \<Rightarrow> state \<Rightarrow> state \<times> emits" where
  "callUser sid data s = catch_log (callUser_body sid data s)"

definition answerCall_body :: "socketId \<Rightarrow> answerCallData option \<Rightarrow> state \<Rightarrow> outcome" where
  "answerCall_body sid data s =
     (case data of
        None \<Rightarrow> Threw TypeError (s, [])
      | Some d \<Rightarrow> Done (s, [(ToRoom (ac_to d), CallAccepted (ac_signal d))]))"

definition answerCall :: "socketId \<Rightarrow> answerCallData option \<Rightarrow> state \<Rightarrow> state \<times> emits" where
  "answerCall sid data s = catch_log (answerCall_body sid data s)"

definition callEnded :: "socketId \<Rightarrow> state \<Rightarrow> state \<times> emits" where
  "callEnded sid s = catch_log (Done (s, [(BroadcastFrom sid, CallEndedAll)]))"

subsection \<open>Connection and disconnection\<close>

text \<open>
  On connection the socket enters \<^verbatim>\<open>io.sockets.sockets\<close> and the room named by its own id,
  and is told its id. On disconnection the adapter takes it out of every room before the
  handler runs; the handler's branch on \<^verbatim>\<open>socket.roomId\<close> never runs, as nothing sets that
  field.
\<close>

definition connection :: "socketId \<Rightarrow> state \<Rightarrow> state \<times> emits" where
  "connection sid s =
     ((socket_join sid sid s)\<lparr>sockets := (sockets s)(sid := Some \<lparr> videoUserName = None,
                                                                    videoNativeLanguage = None \<rparr>)\<rparr>,
      [(ToSocket sid, Me sid)])"

definition leave_all :: "socketId \<Rightarrow> state \<Rightarrow> state" where
  "leave_all sid s =
     s\<lparr>rooms := (\<lambda>room. filter (\<lambda>i. i \<noteq> sid) (rooms s room)), sockets := (sockets s)(sid := None)\<rparr>"

definition disconnect_body :: "socketId \<Rightarrow> state \<Rightarrow> outcome" where
  "disconnect_body sid s =
     (let s0 = leave_all sid s
      in case map_get (activeUsers s0) sid of
           None \<Rightarrow> Done (s0, [])
         | Some user \<Rightarrow>
             Done (s0\<lparr>activeUsers := map_delete (activeUsers s0) sid\<rparr>,
                   [(BroadcastFrom sid, UserOffline (user_id user) sid)]))"

definition disconnect :: "socketId \<Rightarrow> state \<Rightarrow> state \<times> emits" where
  "disconnect sid s = catch_log (disconnect_body sid s)"

subsection \<open>The server as a transition function\<close>

datatype event =
    Connection
  | UserJoin "userData option"
  | ChatMessageEv objectId "chatData option"
  | ChatGetHistory "historyData option"
  | MessageReact "reactData option"
  | MessageEdit "editData option"
  | MessageDelete "deleteData option"
  | WebrtcOfferEv "offerData option"
  | WebrtcAnswerEv "answerData option"
  | WebrtcIceCandidateEv "iceData option"
  | CallEnd "endData option"
  | VideoCallInvitationEv invitationData
  | JoinVideoCallRoom joinRoomData
  | CallUserEv "callUserData option"
  | AnswerCall "answerCallData option"
  | CallEndedEv
  | Disconnect

fun step :: "socketId \<Rightarrow> date \<Rightarrow> event \<Rightarrow> state \<Rightarrow> state \<times> emits" where
  "step sid now Connection s = connection sid s"
| "step sid now (UserJoin d) s = user_join sid now d s"
| "step sid now (ChatMessageEv newId d) s = chat_message sid now newId d s"
| "step sid now (ChatGetHistory d) s = chat_get_history sid d s"
| "step sid now (MessageReact d) s = message_react sid now d s"
| "step sid now (MessageEdit d) s = message_edit sid now d s"
| "step sid now (MessageDelete d) s = message_delete sid now d s"
| "step sid now (WebrtcOfferEv d) s = webrtc_offer sid d s"
| "step sid now (WebrtcAnswerEv d) s = webrtc_answer sid d s"
| "step sid now (WebrtcIceCandidateEv d) s = webrtc_ice_candidate sid d s"
| "step sid now (CallEnd d) s = call_end sid d s"
| "step sid now (VideoCallInvitationEv p) s = videoCallInvitation sid p s"
| "step sid now (JoinVideoCallRoom p) s = joinVideoCallRoom sid p s"
| "step sid now (CallUserEv d) s = callUser sid d s"
| "step sid now (AnswerCall d) s = answerCall sid d s"
| "step sid now CallEndedEv s = callEnded sid s"
| "step sid now Disconnect s = disconnect sid s"

text \<open>
  A run of the server: events in the order the event loop handles them. A \<open>ChatMessageEv\<close>
  carries, next to the payload, the id the driver generates for the new document.
\<close>

fun run :: "(socketId \<times> date \<times> event) list \<Rightarrow> state \<Rightarrow> state" where
  "run [] s = s"
| "run ((sid, now, ev) # evs) s = run evs (fst (step sid now ev s))"

definition init_state :: "(objectId \<Rightarrow> userDoc option) \<Rightarrow> state" where
  "init_state users =
     \<lparr> activeUsers = [], messagesDB = [], usersDB = users, rooms = (\<lambda>room. []), sockets = (\<lambda>i. None) \<rparr>"

section \<open>Concrete inputs\<close>

text \<open>Ids of two users and of three messages, in the form the store writes them, and one id as a client may send it, in upper case.\<close>

definition ex_u1 :: objectId where "ex_u1 = ''64b0a1000000000000000001''"
definition ex_u2 :: objectId where "ex_u2 = ''64b0a1000000000000000002''"
definition ex_u2_upper :: userId where "ex_u2_upper = ''64B0A1000000000000000002''"
definition ex_m1 :: objectId where "ex_m1 = ''64c0ff000000000000000001''"
definition ex_m2 :: objectId where "ex_m2 = ''64c0ff000000000000000002''"
definition ex_m3 :: objectId where "ex_m3 = ''64c0ff000000000000000003''"
definition ex_m9 :: objectId where "ex_m9 = ''64c0ff000000000000000009''"

definition ex_conv :: string where "ex_conv = ex_u1 @ ''-'' @ ex_u2"

text \<open>Two users, one message from the first to the second, and the states along the way.\<close>

definition ex_users :: "objectId \<Rightarrow> userDoc option" where
  "ex_users = [ex_u1 \<mapsto> \<lparr> d_fullName = ''Ann'', d_profilePic = ''ann.png'' \<rparr>,
               ex_u2 \<mapsto> \<lparr> d_fullName = ''Bob'', d_profilePic = ''bob.png'' \<rparr>]"

definition ex_chat :: chatData where
  "ex_chat = \<lparr> c_targetUserId = Some ex_u2, c_message = Some ''hi'', c_senderId = Some ex_u1,
               c_messageType = None, c_fileUrl = None, c_fileName = None, c_fileSize = None,
               c_replyTo = None \<rparr>"

definition ex_msg :: message where
  "ex_msg = \<lparr> m_id = ex_m1, senderId = ex_u1, receiverId = ex_u2, m_text = ''hi'',
              messageType = ''text'', fileUrl = None, fileName = None, fileSize = None,
              replyTo = None, reactions = [], isRead = False, conversationId = ex_conv,
              isEdited = False, editedAt = None, isDeleted = False, deletedAt = None,
              createdAt = 5, updatedAt = 5 \<rparr>"

definition ex_state1 :: state where
  "ex_state1 = (init_state ex_users)\<lparr>messagesDB := [ex_msg]\<rparr>"

definition ex_hist :: historyData where
  "ex_hist = \<lparr> h_targetUserId = Some ex_u1, h_userId = Some ex_u2, h_limit = Some 50 \<rparr>"

definition ex_item :: historyItem where
  "ex_item = \<lparr> hi_id = ex_m1, hi_message = ''hi'', hi_senderId = ex_u1, hi_senderName = ''Ann'',
               hi_senderPic = ''ann.png'', hi_timestamp = 5, hi_conversationId = ex_conv,
               hi_messageType = ''text'', hi_fileUrl = None, hi_fileName = None, hi_fileSize = None,
               hi_replyTo = None, hi_reactions = [], hi_isEdited = False, hi_editedAt = None,
               hi_isDeleted = False, hi_deletedAt = None \<rparr>"


definition ex_session :: "socketId \<Rightarrow> date \<Rightarrow> session" where
  "ex_session c t = \<lparr> user_id = Some ex_u1, user_fullName = Some ''Ann'', socketId = c, joinedAt = t \<rparr>"


text \<open>Three connections enter the call room \<open>m1\<close> one after the other.\<close>

definition ex_join :: "string \<Rightarrow> string \<Rightarrow> joinRoomData" where
  "ex_join n l = \<lparr> jr_meetingId = ''m1'', jr_userName = Some n, jr_nativeLanguage = Some l \<rparr>"

definition ex_connected :: state where
  "ex_connected =
     run [(''a'', 10, Connection), (''b'', 11, Connection), (''c'', 12, Connection)] (init_state ex_users)"

definition ex_two_joined :: state where
  "ex_two_joined =
     run [(''a'', 13, JoinVideoCallRoom (ex_join ''Ann'' ''fr-FR'')),
          (''b'', 14, JoinVideoCallRoom (ex_join ''Bob'' ''de-DE''))] ex_connected"

definition ex_three_joined :: state where
  "ex_three_joined = run [(''c'', 15, JoinVideoCallRoom (ex_join ''Cid'' ''es-ES''))] ex_two_joined"

text \<open>A draft that carries file metadata and no text, and a draft whose sender is not an ObjectId.\<close>

definition ex_file_only :: chatData where
  "ex_file_only = \<lparr> c_targetUserId = Some ex_u2, c_message = None, c_senderId = Some ex_u1,
                    c_messageType = Some ''file'', c_fileUrl = Some ''data:application/pdf;base64,AAAA'',
                    c_fileName = Some ''notes.pdf'', c_fileSize = Some 4, c_replyTo = None \<rparr>"

definition ex_chat_bob :: chatData where
  "ex_chat_bob = ex_chat\<lparr>c_senderId := Some ''bob''\<rparr>"

text \<open>The pair that identifies a reaction on a message: who reacted, and with which emoji.\<close>

definition reaction_key :: "reaction \<Rightarrow> objectId \<times> string" where
  "reaction_key r = (r_userId r, r_emoji r)"

text \<open>The sender of the stored message is online; the receiver reacts to it.\<close>

definition ex_state2 :: state where
  "ex_state2 = ex_state1\<lparr>activeUsers := [(''c1'', ex_session ''c1'' 10)]\<rparr>"

definition ex_react :: "string \<Rightarrow> reactData" where
  "ex_react e = \<lparr> rc_messageId = Some ex_m1, rc_emoji = Some e, rc_userId = Some ex_u2 \<rparr>"

definition ex_reaction :: reaction where
  "ex_reaction = \<lparr> r_userId = ex_u2, r_emoji = ''<3'', r_createdAt = 30 \<rparr>"

definition ex_state3 :: state where
  "ex_state3 = ex_state2\<lparr>messagesDB := [ex_msg\<lparr>reactions := [ex_reaction], updatedAt := 30\<rparr>]\<rparr>"

text \<open>Edits of the stored message: by its sender with an empty text, by its sender, by the receiver.\<close>

definition ex_edit :: "userId \<Rightarrow> string \<Rightarrow> editData" where
  "ex_edit u t = \<lparr> e_messageId = Some ex_m1, e_newText = Some t, e_userId = Some u \<rparr>"

text \<open>A conversation of three messages, asked for with a limit of two.\<close>

definition ex_msg_at :: "objectId \<Rightarrow> date \<Rightarrow> string \<Rightarrow> message" where
  "ex_msg_at i t txt = ex_msg\<lparr>m_id := i, m_text := txt, createdAt := t, updatedAt := t\<rparr>"

definition ex_item_at :: "objectId \<Rightarrow> date \<Rightarrow> string \<Rightarrow> historyItem" where
  "ex_item_at i t txt = ex_item\<lparr>hi_id := i, hi_message := txt, hi_timestamp := t\<rparr>"

definition ex_state_hist :: state where
  "ex_state_hist =
     (init_state ex_users)\<lparr>messagesDB := [ex_msg_at ex_m1 5 ''one'', ex_msg_at ex_m2 7 ''two'', ex_msg_at ex_m3 9 ''three'']\<rparr>"

definition ex_hist2 :: historyData where
  "ex_hist2 = \<lparr> h_targetUserId = Some ex_u1, h_userId = Some ex_u2, h_limit = Some 2 \<rparr>"

text \<open>A stored message that carries the read flag, and an edit of it by its sender.\<close>

definition ex_state_read :: state where
  "ex_state_read = ex_state2\<lparr>messagesDB := [ex_msg\<lparr>isRead := True\<rparr>]\<rparr>"

section \<open>Facts about the concrete ids\<close>

lemma ex_cast [simp]:
  "castObjectId ex_u1 = Some ex_u1" "castObjectId ex_u2 = Some ex_u2"
  "castObjectId ex_m1 = Some ex_m1" "castObjectId ex_m2 = Some ex_m2"
  "castObjectId ex_m3 = Some ex_m3" "castObjectId ex_m9 = Some ex_m9"
  "castObjectId ex_u2_upper = Some ex_u2" "castObjectId ''bob'' = None"
  by (simp_all add: castObjectId_def isHexDigit_def hexLower_def
        ex_u1_def ex_u2_def ex_m1_def ex_m2_def ex_m3_def ex_m9_def ex_u2_upper_def)

lemma ex_distinct [simp]:
  "ex_u1 \<noteq> ex_u2" "ex_u2 \<noteq> ex_u1" "ex_u2_upper \<noteq> ex_u2" "ex_u2 \<noteq> ex_u2_upper"
  "ex_m1 \<noteq> ex_m2" "ex_m1 \<noteq> ex_m3" "ex_m2 \<noteq> ex_m3" "ex_m2 \<noteq> ex_m1" "ex_m3 \<noteq> ex_m1" "ex_m3 \<noteq> ex_m2"
  "ex_m9 \<noteq> ex_m1" "ex_m1 \<noteq> ex_m9"
  by (simp_all add: ex_u1_def ex_u2_def ex_m1_def ex_m2_def ex_m3_def ex_m9_def ex_u2_upper_def)

lemma ex_conversation [simp]:
  "conversationId_of (Some ex_u1) (Some ex_u2) = ex_conv"
  "conversationId_of (Some ex_u2) (Some ex_u1) = ex_conv"
  by (simp_all add: conversationId_of_def js_sort_def ex_conv_def ex_u1_def ex_u2_def)

lemma ex_conv_nonempty [simp]: "ex_conv \<noteq> []"
  by (simp add: ex_conv_def)

lemma ex_users_simps [simp]:
  "ex_users ex_u1 = Some \<lparr> d_fullName = ''Ann'', d_profilePic = ''ann.png'' \<rparr>"
  "ex_users ex_u2 = Some \<lparr> d_fullName = ''Bob'', d_profilePic = ''bob.png'' \<rparr>"
  by (simp_all add: ex_users_def)

section \<open>Conversation identifiers are symmetric\<close>

lemma js_sort_pair: "js_sort [a, b] = js_sort [b, a]"
  by (cases a; cases b) (auto simp: js_sort_def)

lemma conversationId_of_sym: "conversationId_of a b = conversationId_of b a"
  by (simp add: conversationId_of_def js_sort_pair)

lemma conversationId_of_nonempty: "conversationId_of a b \<noteq> []"
  by (cases a; cases b) (auto simp: conversationId_of_def js_sort_def)

lemma Message_create_conversationId:
  "Message_create now newId db md = Inr m \<Longrightarrow> conversationId m = md_conversationId md"
  by (auto simp: Message_create_def Let_def split: option.splits sum.splits if_splits)

lemma chat_message_stores:
  "Message_create now newId (messagesDB s) (build_messageData d) = Inr m \<Longrightarrow>
   messagesDB (fst (chat_message sid now newId (Some d) s)) = messagesDB s @ [m]"
  by (auto simp: chat_message_def chat_message_body_def catch_emit_def Let_def
           split: sum.splits option.splits)

lemma history_items_Inr:
  "history_items users db ms = Inr is \<Longrightarrow>
     map hi_id is = map m_id ms \<and> map hi_timestamp is = map createdAt ms
     \<and> map hi_conversationId is = map conversationId ms"
  by (induction ms arbitrary: "is") (auto simp: history_item_def split: option.splits sum.splits)

lemma history_items_total:
  "list_all (\<lambda>m. users (senderId m) \<noteq> None) ms \<Longrightarrow> \<exists>is. history_items users db ms = Inr is"
  by (induction ms) auto

lemma chat_get_history_body_Done:
  assumes "chat_get_history_body sid (Some h) s = Done (s', es)"
  shows "\<exists>items. history_items (usersDB s) (messagesDB s)
                    (rev (limit_cursor (case h_limit h of None \<Rightarrow> 50 | Some k \<Rightarrow> k)
                       (sort_createdAt_desc
                          (Message_find (messagesDB s) (conversationId_of (h_userId h) (h_targetUserId h))))))
                  = Inr items
               \<and> s' = s
               \<and> es = [(ToSocket sid, ChatHistory (conversationId_of (h_userId h) (h_targetUserId h)) items)]"
  using assms by (auto simp: chat_get_history_body_def Let_def split: sum.splits)

lemma ex_create: "Message_create 5 ex_m1 [] (build_messageData ex_chat) = Inr ex_msg"
  by (simp add: Message_create_def build_messageData_def ex_chat_def ex_msg_def cast_optional_def
        js_or_def truthy_str_def truthy_num_def valid_message_def enum_messageType_def)

lemma ex_sent_state: "fst (chat_message ''s1'' 5 ex_m1 (Some ex_chat) (init_state ex_users)) = ex_state1"
proof -
  have c: "Message_create 5 ex_m1 (messagesDB (init_state ex_users)) (build_messageData ex_chat) = Inr ex_msg"
    using ex_create by (simp add: init_state_def)
  show ?thesis
    using c by (simp add: chat_message_def chat_message_body_def catch_emit_def ex_state1_def)
         (simp add: init_state_def ex_chat_def)
qed

lemma ex_find: "Message_find [ex_msg] ex_conv = [ex_msg]"
  by (simp add: Message_find_def ex_msg_def)

lemma ex_history_items: "history_items ex_users [ex_msg] [ex_msg] = Inr [ex_item]"
  by (simp add: history_item_def ex_msg_def ex_item_def)

lemma ex_state1_simps [simp]: "messagesDB ex_state1 = [ex_msg]" "usersDB ex_state1 = ex_users"
  by (simp_all add: ex_state1_def init_state_def)

lemma ex_history:
  "chat_get_history_body ''s2'' (Some ex_hist) ex_state1
     = Done (ex_state1, [(ToSocket ''s2'', ChatHistory ex_conv [ex_item])])"
  by (simp add: chat_get_history_body_def ex_hist_def ex_find ex_history_items
        sort_createdAt_desc_def limit_cursor_def Let_def del: history_items.simps)

lemma ex_history_all:
  "chat_get_history_body ''s2'' (Some (ex_hist\<lparr>h_limit := Some 0\<rparr>)) ex_state1
     = Done (ex_state1, [(ToSocket ''s2'', ChatHistory ex_conv [ex_item])])"
  by (simp add: chat_get_history_body_def ex_hist_def ex_find ex_history_items
        sort_createdAt_desc_def limit_cursor_def Let_def del: history_items.simps)

text \<open>
  Claim C2. The conversation id derived from \<open>(a, b)\<close> is the one derived from \<open>(b, a)\<close>.
  The send handler stores a message under the id derived from its sender and target, so the
  query by the id derived in the other order finds it. The history handler answers under the
  id derived from its two participants, and the entries of its answer are the result of the
  query by that id: the messages stored under it, most recent first, cut at the limit and
  reversed; every entry carries that id. So a message just sent from one participant to the
  other is in the history that the other asks for without a limit.
\<close>

theorem conversationId_commutative:
  "conversationId_of a b = conversationId_of b a
   \<and> (Message_create now newId (messagesDB s) (build_messageData d) = Inr m \<longrightarrow>
        conversationId m = conversationId_of (c_senderId d) (c_targetUserId d)
        \<and> m \<in> set (Message_find (messagesDB (fst (chat_message sid now newId (Some d) s)))
                      (conversationId_of (c_targetUserId d) (c_senderId d))))
   \<and> (chat_get_history_body sid' (Some h) s = Done (s', es) \<longrightarrow>
        (\<exists>items. es = [(ToSocket sid', ChatHistory (conversationId_of (h_userId h) (h_targetUserId h)) items)]
           \<and> map hi_id items
               = map m_id (rev (limit_cursor (case h_limit h of None \<Rightarrow> 50 | Some k \<Rightarrow> k)
                   (sort_createdAt_desc
                      (Message_find (messagesDB s) (conversationId_of (h_userId h) (h_targetUserId h))))))
           \<and> (\<forall>i\<in>set items. hi_conversationId i = conversationId_of (h_userId h) (h_targetUserId h))))
   \<and> (Message_create now newId (messagesDB s) (build_messageData d) = Inr m
        \<and> h_userId h0 = c_targetUserId d \<and> h_targetUserId h0 = c_senderId d \<and> h_limit h0 = Some 0
        \<and> chat_get_history_body sid' (Some h0) (fst (chat_message sid now newId (Some d) s)) = Done (s0, es0) \<longrightarrow>
        (\<exists>items. es0 = [(ToSocket sid', ChatHistory (conversationId_of (c_senderId d) (c_targetUserId d)) items)]
           \<and> m_id m \<in> set (map hi_id items)))"
proof (intro conjI impI)
  show "conversationId_of a b = conversationId_of b a"
    by (rule conversationId_of_sym)
next
  assume c: "Message_create now newId (messagesDB s) (build_messageData d) = Inr m"
  show cid: "conversationId m = conversationId_of (c_senderId d) (c_targetUserId d)"
    using Message_create_conversationId[OF c] by (simp add: build_messageData_def)
  show "m \<in> set (Message_find (messagesDB (fst (chat_message sid now newId (Some d) s)))
                      (conversationId_of (c_targetUserId d) (c_senderId d)))"
    using chat_message_stores[OF c] cid conversationId_of_sym[of "c_targetUserId d" "c_senderId d"]
    by (simp add: Message_find_def)
next
  let ?cid = "conversationId_of (h_userId h) (h_targetUserId h)"
  let ?q = "rev (limit_cursor (case h_limit h of None \<Rightarrow> 50 | Some k \<Rightarrow> k)
              (sort_createdAt_desc (Message_find (messagesDB s) ?cid)))"
  assume "chat_get_history_body sid' (Some h) s = Done (s', es)"
  then obtain items where hi: "history_items (usersDB s) (messagesDB s) ?q = Inr items"
    and es: "es = [(ToSocket sid', ChatHistory ?cid items)]"
    using chat_get_history_body_Done by blast
  note m = history_items_Inr[OF hi]
  have sub: "set ?q \<subseteq> set (Message_find (messagesDB s) ?cid)"
    by (auto simp: limit_cursor_def sort_createdAt_desc_def dest: in_set_takeD)
  have "\<forall>x\<in>set ?q. conversationId x = ?cid"
    using sub by (auto simp: Message_find_def)
  then have "\<forall>c\<in>set (map conversationId ?q). c = ?cid"
    by auto
  then have "\<forall>c\<in>set (map hi_conversationId items). c = ?cid"
    using m by simp
  then have all: "\<forall>i\<in>set items. hi_conversationId i = ?cid"
    by auto
  show "\<exists>items. es = [(ToSocket sid', ChatHistory ?cid items)]
           \<and> map hi_id items = map m_id ?q
           \<and> (\<forall>i\<in>set items. hi_conversationId i = ?cid)"
    using es m all by blast
next
  assume a: "Message_create now newId (messagesDB s) (build_messageData d) = Inr m
        \<and> h_userId h0 = c_targetUserId d \<and> h_targetUserId h0 = c_senderId d \<and> h_limit h0 = Some 0
        \<and> chat_get_history_body sid' (Some h0) (fst (chat_message sid now newId (Some d) s)) = Done (s0, es0)"
  let ?s1 = "fst (chat_message sid now newId (Some d) s)"
  let ?cid = "conversationId_of (c_senderId d) (c_targetUserId d)"
  have c: "Message_create now newId (messagesDB s) (build_messageData d) = Inr m" using a by simp
  have cid0: "conversationId_of (h_userId h0) (h_targetUserId h0) = ?cid"
    using a conversationId_of_sym[of "c_targetUserId d" "c_senderId d"] by simp
  have cm: "conversationId m = ?cid"
    using Message_create_conversationId[OF c] by (simp add: build_messageData_def)
  have mem: "m \<in> set (Message_find (messagesDB ?s1) ?cid)"
    using chat_message_stores[OF c, of sid] cm by (simp add: Message_find_def)
  obtain items where hi: "history_items (usersDB ?s1) (messagesDB ?s1)
        (rev (limit_cursor 0 (sort_createdAt_desc (Message_find (messagesDB ?s1) ?cid)))) = Inr items"
    and es: "es0 = [(ToSocket sid', ChatHistory ?cid items)]"
    using chat_get_history_body_Done[of sid' h0 ?s1 s0 es0] a cid0 by auto
  have "map hi_id items = map m_id (rev (limit_cursor 0 (sort_createdAt_desc (Message_find (messagesDB ?s1) ?cid))))"
    using history_items_Inr[OF hi] by simp
  then have "set (map hi_id items) = m_id ` set (Message_find (messagesDB ?s1) ?cid)"
    by (simp add: limit_cursor_def sort_createdAt_desc_def)
  then have "m_id m \<in> set (map hi_id items)"
    using mem by blast
  then show "\<exists>items. es0 = [(ToSocket sid', ChatHistory ?cid items)] \<and> m_id m \<in> set (map hi_id items)"
    using es by blast
qed

theorem conversationId_commutative_witness:
  "Message_create 5 ex_m1 (messagesDB (init_state ex_users)) (build_messageData ex_chat) = Inr ex_msg
   \<and> conversationId_of (Some ex_u1) (Some ex_u2) = conversationId_of (Some ex_u2) (Some ex_u1)
   \<and> conversationId ex_msg = conversationId_of (c_senderId ex_chat) (c_targetUserId ex_chat)
   \<and> ex_msg \<in> set (Message_find (messagesDB (fst (chat_message ''s1'' 5 ex_m1 (Some ex_chat) (init_state ex_users))))
                      (conversationId_of (c_targetUserId ex_chat) (c_senderId ex_chat)))
   \<and> chat_get_history_body ''s2'' (Some ex_hist) ex_state1
        = Done (ex_state1, [(ToSocket ''s2'', ChatHistory ex_conv [ex_item])])
   \<and> map hi_id [ex_item] = map m_id (Message_find (messagesDB ex_state1) ex_conv)
   \<and> hi_conversationId ex_item = conversationId_of (h_userId ex_hist) (h_targetUserId ex_hist)
   \<and> chat_get_history_body ''s2'' (Some (ex_hist\<lparr>h_limit := Some 0\<rparr>))
        (fst (chat_message ''s1'' 5 ex_m1 (Some ex_chat) (init_state ex_users)))
        = Done (ex_state1, [(ToSocket ''s2'', ChatHistory ex_conv [ex_item])])
   \<and> m_id ex_msg \<in> set (map hi_id [ex_item])"
proof -
  let ?h0 = "ex_hist\<lparr>h_limit := Some 0\<rparr>"
  let ?es = "[(ToSocket ''s2'', ChatHistory ex_conv [ex_item])]"
  have c: "Message_create 5 ex_m1 (messagesDB (init_state ex_users)) (build_messageData ex_chat) = Inr ex_msg"
    using ex_create by (simp add: init_state_def)
  have h0: "h_userId ?h0 = c_targetUserId ex_chat" "h_targetUserId ?h0 = c_senderId ex_chat" "h_limit ?h0 = Some 0"
    by (simp_all add: ex_hist_def ex_chat_def)
  have e0: "chat_get_history_body ''s2'' (Some ?h0)
              (fst (chat_message ''s1'' 5 ex_m1 (Some ex_chat) (init_state ex_users))) = Done (ex_state1, ?es)"
    unfolding ex_sent_state by (rule ex_history_all)
  note t1 = conversationId_commutative[where a = "Some ex_u1" and b = "Some ex_u2" and now = 5 and newId = ex_m1
      and s = "init_state ex_users" and d = ex_chat and m = ex_msg and sid = "''s1''" and sid' = "''s2''"
      and ?h0.0 = ?h0 and ?s0.0 = ex_state1 and ?es0.0 = ?es]
  note t2 = conversationId_commutative[where s = ex_state1 and h = ex_hist and sid' = "''s2''"
      and s' = ex_state1 and es = ?es]
  have send: "conversationId ex_msg = conversationId_of (c_senderId ex_chat) (c_targetUserId ex_chat)
     \<and> ex_msg \<in> set (Message_find (messagesDB (fst (chat_message ''s1'' 5 ex_m1 (Some ex_chat) (init_state ex_users))))
                      (conversationId_of (c_targetUserId ex_chat) (c_senderId ex_chat)))"
    using t1 c by blast
  have "\<exists>items. ?es = [(ToSocket ''s2'', ChatHistory (conversationId_of (c_senderId ex_chat) (c_targetUserId ex_chat)) items)]
           \<and> m_id ex_msg \<in> set (map hi_id items)"
    using t1 c h0 e0 by blast
  then have e2e: "m_id ex_msg \<in> set (map hi_id [ex_item])"
    by auto
  have "\<exists>items. ?es = [(ToSocket ''s2'', ChatHistory (conversationId_of (h_userId ex_hist) (h_targetUserId ex_hist)) items)]
           \<and> map hi_id items
               = map m_id (rev (limit_cursor (case h_limit ex_hist of None \<Rightarrow> 50 | Some k \<Rightarrow> k)
                   (sort_createdAt_desc
                      (Message_find (messagesDB ex_state1) (conversationId_of (h_userId ex_hist) (h_targetUserId ex_hist))))))
           \<and> (\<forall>i\<in>set items. hi_conversationId i = conversationId_of (h_userId ex_hist) (h_targetUserId ex_hist))"
    using t2 ex_history by blast
  then have hist: "map hi_id [ex_item] = map m_id (Message_find (messagesDB ex_state1) ex_conv)
      \<and> hi_conversationId ex_item = conversationId_of (h_userId ex_hist) (h_targetUserId ex_hist)"
    by (auto simp: ex_hist_def ex_find limit_cursor_def sort_createdAt_desc_def)
  show ?thesis
    using c send ex_history hist e0 e2e conversationId_of_sym by blast
qed
section \<open>Presence registration\<close>









section \<open>Call rooms\<close>

lemma joinVideoCallRoom_rooms:
  "rooms (fst (joinVideoCallRoom sid p s)) = rooms (socket_join sid (jr_meetingId p) s)"
  by (simp add: joinVideoCallRoom_def joinVideoCallRoom_body_def catch_log_def Let_def
        store_video_info_def split: option.splits)

lemma ex_connected_rooms: "rooms ex_connected ''m1'' = []"
  by (simp add: ex_connected_def connection_def socket_join_def init_state_def)

lemma ex_two_joined_rooms: "rooms ex_two_joined ''m1'' = [''a'', ''b'']"
  by (simp add: ex_two_joined_def joinVideoCallRoom_rooms socket_join_def ex_join_def
        ex_connected_rooms)

lemma ex_three_joined_rooms: "rooms ex_three_joined ''m1'' = [''a'', ''b'', ''c'']"
  by (simp add: ex_three_joined_def joinVideoCallRoom_rooms socket_join_def ex_join_def
        ex_two_joined_rooms)

text \<open>
  Claim C3, as stated, fails: three connections that join the same room one after the other
  leave it with three members.
\<close>

theorem room_capacity_counterexample:
  "rooms ex_three_joined ''m1'' = [''a'', ''b'', ''c''] \<and> \<not> length (rooms ex_three_joined ''m1'') \<le> 2"
  by (simp add: ex_three_joined_rooms)

text \<open>
  Claim C3, amended. Joining a room adds the joining connection to it whatever the room's
  size: the members afterwards are the members before and the joiner, one more than before
  when the joiner was not a member, and every other room is as it was. No capacity is
  enforced. A joiner that leaves the room with three or more members is sent nothing.
\<close>

theorem joinRoom_adds_member:
  "set (rooms (fst (joinVideoCallRoom sid p s)) (jr_meetingId p)) = insert sid (set (rooms s (jr_meetingId p)))
   \<and> (sid \<notin> set (rooms s (jr_meetingId p)) \<longrightarrow>
        length (rooms (fst (joinVideoCallRoom sid p s)) (jr_meetingId p)) = Suc (length (rooms s (jr_meetingId p))))
   \<and> (r \<noteq> jr_meetingId p \<longrightarrow> rooms (fst (joinVideoCallRoom sid p s)) r = rooms s r)
   \<and> (2 < length (rooms (fst (joinVideoCallRoom sid p s)) (jr_meetingId p)) \<longrightarrow>
        snd (joinVideoCallRoom sid p s) = [])"
proof (intro conjI impI)
  show "set (rooms (fst (joinVideoCallRoom sid p s)) (jr_meetingId p)) = insert sid (set (rooms s (jr_meetingId p)))"
    by (auto simp: joinVideoCallRoom_rooms socket_join_def)
next
  assume "sid \<notin> set (rooms s (jr_meetingId p))"
  then show "length (rooms (fst (joinVideoCallRoom sid p s)) (jr_meetingId p)) = Suc (length (rooms s (jr_meetingId p)))"
    by (simp add: joinVideoCallRoom_rooms socket_join_def)
next
  assume "r \<noteq> jr_meetingId p"
  then show "rooms (fst (joinVideoCallRoom sid p s)) r = rooms s r"
    by (simp add: joinVideoCallRoom_rooms socket_join_def)
next
  assume "2 < length (rooms (fst (joinVideoCallRoom sid p s)) (jr_meetingId p))"
  then have "2 < length (rooms (socket_join sid (jr_meetingId p) s) (jr_meetingId p))"
    by (simp add: joinVideoCallRoom_rooms)
  then show "snd (joinVideoCallRoom sid p s) = []"
    by (simp add: joinVideoCallRoom_def joinVideoCallRoom_body_def catch_log_def Let_def)
qed

theorem joinRoom_adds_member_witness:
  "''c'' \<notin> set (rooms ex_two_joined ''m1'')
   \<and> ''c'' \<noteq> jr_meetingId (ex_join ''Cid'' ''es-ES'')
   \<and> 2 < length (rooms ex_three_joined ''m1'')
   \<and> set (rooms ex_three_joined ''m1'') = insert ''c'' (set (rooms ex_two_joined ''m1''))
   \<and> length (rooms ex_three_joined ''m1'') = Suc (length (rooms ex_two_joined ''m1''))
   \<and> rooms ex_three_joined ''c'' = rooms ex_two_joined ''c''
   \<and> snd (joinVideoCallRoom ''c'' (ex_join ''Cid'' ''es-ES'') ex_two_joined) = []"
proof -
  have e: "ex_three_joined = fst (joinVideoCallRoom ''c'' (ex_join ''Cid'' ''es-ES'') ex_two_joined)"
    by (simp add: ex_three_joined_def)
  have m: "jr_meetingId (ex_join ''Cid'' ''es-ES'') = ''m1''"
    by (simp add: ex_join_def)
  have h1: "''c'' \<notin> set (rooms ex_two_joined ''m1'')"
    by (simp add: ex_two_joined_rooms)
  have h2: "''c'' \<noteq> jr_meetingId (ex_join ''Cid'' ''es-ES'')"
    by (simp add: m)
  have h3: "2 < length (rooms ex_three_joined ''m1'')"
    by (simp add: ex_three_joined_rooms)
  show ?thesis
    using h1 h2 h3 joinRoom_adds_member[of "''c''" "ex_join ''Cid'' ''es-ES''" ex_two_joined "''c''"]
    unfolding e[symmetric] m by blast
qed

text \<open>
  Claim C8. When \<open>A\<close> joins a room that has no member, \<open>A\<close> is told it is the waiter. When
  another connection \<open>B\<close> then joins the same room, \<open>B\<close> is told it is the caller, with the
  connection id of \<open>A\<close> and the display name and locale \<open>A\<close> joined with, and in the same
  handler run \<open>A\<close> is sent the expecting-call-from notice with the connection id of \<open>B\<close>
  and the display name and locale \<open>B\<close> joined with. A display name or locale that was left out
  or empty is replaced by \<^verbatim>\<open>"Other participant"\<close> and \<^verbatim>\<open>"en-US"\<close>, as \<open>js_or\<close> says.
\<close>

theorem roles_by_arrival:
  assumes "rooms s (jr_meetingId pA) = []"
    and "jr_meetingId pB = jr_meetingId pA"
    and "A \<noteq> B"
  shows "snd (joinVideoCallRoom A pA s)
           = [(ToSocket A, RoomRole Waiter None None None ''Waiting for other participant...'')]
       \<and> snd (joinVideoCallRoom B pB (fst (joinVideoCallRoom A pA s)))
           = [(ToSocket B, RoomRole Caller (Some A)
                 (Some (js_or (jr_userName pA) ''Other participant''))
                 (Some (js_or (jr_nativeLanguage pA) ''en-US''))
                 ''Ready to start call''),
              (ToSocket A, ExpectingCallFrom B (jr_userName pB) (js_or (jr_nativeLanguage pB) ''en-US''))]"
proof -
  let ?m = "jr_meetingId pA"
  let ?s1 = "socket_join A ?m s"
  have r1: "rooms ?s1 ?m = [A]"
    using assms(1) by (simp add: socket_join_def)
  have first: "joinVideoCallRoom A pA s
      = (store_video_info A pA ?s1,
         [(ToSocket A, RoomRole Waiter None None None ''Waiting for other participant...'')])"
    using r1 by (simp add: joinVideoCallRoom_def joinVideoCallRoom_body_def catch_log_def Let_def)
  let ?sA = "store_video_info A pA ?s1"
  have rA: "rooms ?sA ?m = [A]"
    using r1 by (simp add: store_video_info_def)
  have r2: "rooms (socket_join B ?m ?sA) ?m = [A, B]"
    using rA assms(3) by (simp add: socket_join_def)
  have sock: "sockets (socket_join B ?m ?sA) A
      = Some \<lparr> videoUserName = jr_userName pA, videoNativeLanguage = jr_nativeLanguage pA \<rparr>"
    by (simp add: socket_join_def store_video_info_def)
  have second: "snd (joinVideoCallRoom B pB ?sA)
      = [(ToSocket B, RoomRole Caller (Some A)
                 (Some (js_or (jr_userName pA) ''Other participant''))
                 (Some (js_or (jr_nativeLanguage pA) ''en-US''))
                 ''Ready to start call''),
         (ToSocket A, ExpectingCallFrom B (jr_userName pB) (js_or (jr_nativeLanguage pB) ''en-US''))]"
    using r2 sock assms(2,3)
    by (simp add: joinVideoCallRoom_def joinVideoCallRoom_body_def catch_log_def Let_def)
  show ?thesis
    using first second by simp
qed

theorem roles_by_arrival_witness:
  "rooms ex_connected (jr_meetingId (ex_join ''Ann'' ''fr-FR'')) = []
   \<and> jr_meetingId (ex_join ''Bob'' ''de-DE'') = jr_meetingId (ex_join ''Ann'' ''fr-FR'')
   \<and> ''a'' \<noteq> ''b''
   \<and> snd (joinVideoCallRoom ''a'' (ex_join ''Ann'' ''fr-FR'') ex_connected)
        = [(ToSocket ''a'', RoomRole Waiter None None None ''Waiting for other participant...'')]
   \<and> snd (joinVideoCallRoom ''b'' (ex_join ''Bob'' ''de-DE'')
             (fst (joinVideoCallRoom ''a'' (ex_join ''Ann'' ''fr-FR'') ex_connected)))
        = [(ToSocket ''b'', RoomRole Caller (Some ''a'') (Some ''Ann'') (Some ''fr-FR'') ''Ready to start call''),
           (ToSocket ''a'', ExpectingCallFrom ''b'' (Some ''Bob'') ''de-DE'')]"
proof -
  have h1: "rooms ex_connected (jr_meetingId (ex_join ''Ann'' ''fr-FR'')) = []"
    by (simp add: ex_join_def ex_connected_rooms)
  have h2: "jr_meetingId (ex_join ''Bob'' ''de-DE'') = jr_meetingId (ex_join ''Ann'' ''fr-FR'')"
    by (simp add: ex_join_def)
  have h3: "''a'' \<noteq> ''b''"
    by simp
  show ?thesis
    using h1 h2 roles_by_arrival[OF h1 h2 h3]
    by (simp add: ex_join_def js_or_def)
qed

section \<open>Appending a message\<close>

lemma Message_create_Inr_iff:
  assumes "newId \<notin> set (map m_id db)"
  shows "(\<exists>m. Message_create now newId db (build_messageData d) = Inr m) \<longleftrightarrow>
     (required_objectId (c_senderId d) \<and> required_objectId (c_targetUserId d)
      \<and> required_string (c_message d)
      \<and> js_or (c_messageType d) ''text'' \<in> set enum_messageType
      \<and> (truthy_str (c_replyTo d) = None \<or> required_objectId (c_replyTo d)))"
  using assms
  by (auto simp: Message_create_def build_messageData_def Let_def valid_message_def
        required_string_def required_objectId_def cast_optional_def truthy_str_def
        conversationId_of_nonempty split: option.splits sum.splits if_splits)

lemma Message_create_Inl:
  "newId \<notin> set (map m_id db) \<Longrightarrow> Message_create now newId db md = Inl e \<Longrightarrow> e = ValidationError"
  by (auto simp: Message_create_def Let_def split: option.splits sum.splits if_splits)

lemma Message_create_fields:
  "Message_create now newId db (build_messageData d) = Inr m \<Longrightarrow>
     m_id m = newId \<and> createdAt m = now
     \<and> Option.bind (c_senderId d) castObjectId = Some (senderId m)
     \<and> Option.bind (c_targetUserId d) castObjectId = Some (receiverId m)
     \<and> Some (m_text m) = c_message d \<and> m_text m \<noteq> []
     \<and> fileUrl m = truthy_str (c_fileUrl d) \<and> reactions m = [] \<and> \<not> isRead m
     \<and> \<not> isEdited m \<and> \<not> isDeleted m"
  by (auto simp: Message_create_def build_messageData_def Let_def valid_message_def
        split: option.splits sum.splits if_splits)

lemma chat_message_rejects:
  "Message_create now newId (messagesDB s) (build_messageData d) = Inl e \<Longrightarrow>
     chat_message sid now newId (Some d) s = (s, [(ToSocket sid, ErrorEv ''Failed to send message'')])"
  by (simp add: chat_message_def chat_message_body_def catch_emit_def)

text \<open>
  Claim C4, as stated, fails: a draft with sender, receiver and file metadata but no text is
  rejected by the schema, nothing is stored, and the sender gets the generic error event.
\<close>

theorem file_only_draft_counterexample:
  "c_senderId ex_file_only = Some ex_u1 \<and> c_targetUserId ex_file_only = Some ex_u2
   \<and> md_fileUrl (build_messageData ex_file_only) = Some ''data:application/pdf;base64,AAAA''
   \<and> Message_create 5 ex_m1 (messagesDB (init_state ex_users)) (build_messageData ex_file_only) = Inl ValidationError
   \<and> messagesDB (fst (chat_message ''s1'' 5 ex_m1 (Some ex_file_only) (init_state ex_users))) = []
   \<and> snd (chat_message ''s1'' 5 ex_m1 (Some ex_file_only) (init_state ex_users))
        = [(ToSocket ''s1'', ErrorEv ''Failed to send message'')]"
proof -
  have c: "Message_create 5 ex_m1 (messagesDB (init_state ex_users)) (build_messageData ex_file_only) = Inl ValidationError"
    by (simp add: Message_create_def build_messageData_def ex_file_only_def)
  show ?thesis
    using c chat_message_rejects[OF c, of "''s1''"]
    by (simp add: ex_file_only_def build_messageData_def truthy_str_def init_state_def)
qed

text \<open>
  Claim C4, amended. With an id for the new document that the collection does not hold yet,
  appending succeeds exactly when the draft has a sender id and a receiver id that cast to
  ObjectId (24 hexadecimal digits), a text that is not empty, a message type that is left
  out, empty, or one of the five kinds of the schema, and a reply reference that is left out,
  empty, or casts to ObjectId. The stored message then carries that id, the current time, the
  text, and the sender and receiver as cast, and is the new last entry of the collection. In
  every other case the append fails with a validation error, nothing is stored and the sender
  gets the generic error event. File metadata does not stand in for the text.
\<close>

theorem append_requires_text:
  assumes "newId \<notin> set (map m_id (messagesDB s))"
  shows
  "((\<exists>m. Message_create now newId (messagesDB s) (build_messageData d) = Inr m) \<longleftrightarrow>
      (required_objectId (c_senderId d) \<and> required_objectId (c_targetUserId d)
       \<and> required_string (c_message d)
       \<and> js_or (c_messageType d) ''text'' \<in> set enum_messageType
       \<and> (truthy_str (c_replyTo d) = None \<or> required_objectId (c_replyTo d))))
   \<and> (Message_create now newId (messagesDB s) (build_messageData d) = Inr m \<longrightarrow>
        m_id m = newId \<and> createdAt m = now \<and> Some (m_text m) = c_message d
        \<and> Option.bind (c_senderId d) castObjectId = Some (senderId m)
        \<and> Option.bind (c_targetUserId d) castObjectId = Some (receiverId m)
        \<and> messagesDB (fst (chat_message sid now newId (Some d) s)) = messagesDB s @ [m])
   \<and> ((\<nexists>m. Message_create now newId (messagesDB s) (build_messageData d) = Inr m) \<longrightarrow>
        Message_create now newId (messagesDB s) (build_messageData d) = Inl ValidationError
        \<and> chat_message sid now newId (Some d) s = (s, [(ToSocket sid, ErrorEv ''Failed to send message'')]))"
proof (intro conjI impI)
  show "(\<exists>m. Message_create now newId (messagesDB s) (build_messageData d) = Inr m) \<longleftrightarrow>
      (required_objectId (c_senderId d) \<and> required_objectId (c_targetUserId d)
       \<and> required_string (c_message d)
       \<and> js_or (c_messageType d) ''text'' \<in> set enum_messageType
       \<and> (truthy_str (c_replyTo d) = None \<or> required_objectId (c_replyTo d)))"
    by (rule Message_create_Inr_iff[OF assms])
next
  assume c: "Message_create now newId (messagesDB s) (build_messageData d) = Inr m"
  show "m_id m = newId" "createdAt m = now" "Some (m_text m) = c_message d"
    "Option.bind (c_senderId d) castObjectId = Some (senderId m)"
    "Option.bind (c_targetUserId d) castObjectId = Some (receiverId m)"
    using Message_create_fields[OF c] by simp_all
  show "messagesDB (fst (chat_message sid now newId (Some d) s)) = messagesDB s @ [m]"
    by (rule chat_message_stores[OF c])
next
  assume n: "\<nexists>m. Message_create now newId (messagesDB s) (build_messageData d) = Inr m"
  then obtain e where e: "Message_create now newId (messagesDB s) (build_messageData d) = Inl e"
    by (cases "Message_create now newId (messagesDB s) (build_messageData d)") auto
  show "Message_create now newId (messagesDB s) (build_messageData d) = Inl ValidationError"
    using e Message_create_Inl[OF assms e] by simp
  show "chat_message sid now newId (Some d) s = (s, [(ToSocket sid, ErrorEv ''Failed to send message'')])"
    by (rule chat_message_rejects[OF e])
qed

theorem append_requires_text_witness:
  "ex_m1 \<notin> set (map m_id (messagesDB (init_state ex_users)))
   \<and> Message_create 5 ex_m1 (messagesDB (init_state ex_users)) (build_messageData ex_chat) = Inr ex_msg
   \<and> m_id ex_msg = ex_m1 \<and> createdAt ex_msg = 5 \<and> Some (m_text ex_msg) = c_message ex_chat
   \<and> messagesDB (fst (chat_message ''s1'' 5 ex_m1 (Some ex_chat) (init_state ex_users)))
        = messagesDB (init_state ex_users) @ [ex_msg]
   \<and> (\<nexists>m. Message_create 5 ex_m1 (messagesDB (init_state ex_users)) (build_messageData ex_file_only) = Inr m)
   \<and> chat_message ''s1'' 5 ex_m1 (Some ex_file_only) (init_state ex_users)
        = (init_state ex_users, [(ToSocket ''s1'', ErrorEv ''Failed to send message'')])
   \<and> \<not> required_objectId (c_senderId ex_chat_bob)
   \<and> chat_message ''s1'' 5 ex_m1 (Some ex_chat_bob) (init_state ex_users)
        = (init_state ex_users, [(ToSocket ''s1'', ErrorEv ''Failed to send message'')])"
proof -
  have f: "ex_m1 \<notin> set (map m_id (messagesDB (init_state ex_users)))"
    by (simp add: init_state_def)
  have c: "Message_create 5 ex_m1 (messagesDB (init_state ex_users)) (build_messageData ex_chat) = Inr ex_msg"
    using ex_create by (simp add: init_state_def)
  have n: "\<nexists>m. Message_create 5 ex_m1 (messagesDB (init_state ex_users)) (build_messageData ex_file_only) = Inr m"
    by (simp add: Message_create_def build_messageData_def ex_file_only_def)
  have b: "\<not> required_objectId (c_senderId ex_chat_bob)"
    by (simp add: ex_chat_bob_def required_objectId_def)
  note t = append_requires_text[OF f, where now = 5 and sid = "''s1''"]
  have nb: "\<nexists>m. Message_create 5 ex_m1 (messagesDB (init_state ex_users)) (build_messageData ex_chat_bob) = Inr m"
    using t[of ex_chat_bob] b by blast
  show ?thesis
    using f c n b nb t[of ex_chat ex_msg] t[of ex_file_only ex_msg] t[of ex_chat_bob ex_msg]
    by blast
qed
section \<open>Mutations of stored messages\<close>

lemma findById_Some_id:
  "findById db i = Inr (Some m) \<Longrightarrow> \<exists>v. i = Some v \<and> castObjectId v = Some (m_id m)"
  by (auto simp: findById_def find_Some_iff split: option.splits)

lemma findById_replace:
  assumes "findById db i = Inr (Some m)" and "m_id m' = m_id m"
  shows "findById (map (\<lambda>x. if m_id x = m_id m then m' else x) db) i = Inr (Some m')"
proof -
  obtain v where v: "i = Some v" "castObjectId v = Some (m_id m)"
    using findById_Some_id[OF assms(1)] by blast
  have f: "find (\<lambda>x. m_id x = m_id m) db = Some m"
    using assms(1) v by (simp add: findById_def)
  have "find (\<lambda>x. m_id x = m_id m) (map (\<lambda>x. if m_id x = m_id m then m' else x) db) = Some m'"
    using f assms(2) by (induction db) (auto split: if_splits)
  then show ?thesis
    using v by (simp add: findById_def)
qed

lemma same_reaction_key: "same_reaction (Some u) (Some e) r \<longleftrightarrow> reaction_key r = (u, e)"
  by (auto simp: same_reaction_def reaction_key_def)

lemma find_same_reaction_None:
  "find (same_reaction (Some u) (Some e)) rs = None \<longleftrightarrow> (u, e) \<notin> reaction_key ` set rs"
  by (force simp: find_None_iff same_reaction_key image_iff)

lemma message_react_found:
  assumes "findById (messagesDB s) (rc_messageId d) = Inr (Some m)" and "valid_message m"
    and "rc_userId d = Some u" and "castObjectId u = Some u" and "rc_emoji d = Some e" and "e \<noteq> []"
  shows "message_react sid now (Some d) s =
     (if (u, e) \<in> reaction_key ` set (reactions m)
      then (s\<lparr>messagesDB := map (\<lambda>x. if m_id x = m_id m
                 then m\<lparr>reactions := filter (\<lambda>r. reaction_key r \<noteq> (u, e)) (reactions m), updatedAt := now\<rparr>
                 else x) (messagesDB s)\<rparr>,
            to_both (activeUsers s) m
              (MessageReaction (rc_messageId d) (filter (\<lambda>r. reaction_key r \<noteq> (u, e)) (reactions m))
                 (Some u) (Some e) ''removed''))
      else (s\<lparr>messagesDB := map (\<lambda>x. if m_id x = m_id m
                 then m\<lparr>reactions := reactions m @ [\<lparr> r_userId = u, r_emoji = e, r_createdAt = now \<rparr>],
                        updatedAt := now\<rparr>
                 else x) (messagesDB s)\<rparr>,
            to_both (activeUsers s) m
              (MessageReaction (rc_messageId d) (reactions m @ [\<lparr> r_userId = u, r_emoji = e, r_createdAt = now \<rparr>])
                 (Some u) (Some e) ''added'')))"
proof (cases "(u, e) \<in> reaction_key ` set (reactions m)")
  case True
  then obtain r where r: "find (same_reaction (Some u) (Some e)) (reactions m) = Some r"
    using find_same_reaction_None[of u e "reactions m"]
    by (cases "find (same_reaction (Some u) (Some e)) (reactions m)") auto
  have v: "valid_message (m\<lparr>reactions := filter (\<lambda>r. reaction_key r \<noteq> (u, e)) (reactions m)\<rparr>)"
    using assms(2) by (auto simp: valid_message_def list_all_iff)
  show ?thesis
    using True r v assms(1,3,5)
    by (simp add: message_react_def message_react_body_def catch_emit_def Let_def
          toggle_reactions_def Message_save_def same_reaction_key)
next
  case False
  then have r: "find (same_reaction (Some u) (Some e)) (reactions m) = None"
    by (simp add: find_same_reaction_None)
  have v: "valid_message (m\<lparr>reactions := reactions m @ [\<lparr> r_userId = u, r_emoji = e, r_createdAt = now \<rparr>]\<rparr>)"
    using assms(2,6) by (auto simp: valid_message_def valid_reaction_def)
  show ?thesis
    using False r v assms(1,3,4,5)
    by (simp add: message_react_def message_react_body_def catch_emit_def Let_def
          toggle_reactions_def Message_save_def)
qed

lemma message_react_adds:
  assumes "findById (messagesDB s) (rc_messageId d) = Inr (Some m)" and "valid_message m"
    and "rc_userId d = Some u" and "castObjectId u = Some c" and "rc_emoji d = Some e" and "e \<noteq> []"
    and "find (same_reaction (Some u) (Some e)) (reactions m) = None"
  shows "message_react sid now (Some d) s =
     (s\<lparr>messagesDB := map (\<lambda>x. if m_id x = m_id m
              then m\<lparr>reactions := reactions m @ [\<lparr> r_userId = c, r_emoji = e, r_createdAt = now \<rparr>],
                     updatedAt := now\<rparr>
              else x) (messagesDB s)\<rparr>,
      to_both (activeUsers s) m
        (MessageReaction (rc_messageId d) (reactions m @ [\<lparr> r_userId = c, r_emoji = e, r_createdAt = now \<rparr>])
           (Some u) (Some e) ''added''))"
proof -
  have v: "valid_message (m\<lparr>reactions := reactions m @ [\<lparr> r_userId = c, r_emoji = e, r_createdAt = now \<rparr>]\<rparr>)"
    using assms(2,6) by (auto simp: valid_message_def valid_reaction_def)
  show ?thesis
    using v assms(1,3,4,5,7)
    by (simp add: message_react_def message_react_body_def catch_emit_def Let_def
          toggle_reactions_def Message_save_def)
qed

lemma valid_after_toggle:
  assumes "valid_message m" and "e \<noteq> []"
  shows "valid_message (m\<lparr>reactions := filter (\<lambda>r. reaction_key r \<noteq> (u, e)) (reactions m), updatedAt := t\<rparr>)"
    and "valid_message (m\<lparr>reactions := reactions m @ [\<lparr> r_userId = u, r_emoji = e, r_createdAt = t \<rparr>], updatedAt := t\<rparr>)"
  using assms by (auto simp: valid_message_def valid_reaction_def list_all_iff)

lemma message_react_unknown:
  "findById (messagesDB s) (rc_messageId d) = Inr None \<Longrightarrow>
   message_react sid now (Some d) s = (s, [(ToSocket sid, ErrorEv ''Message not found'')])"
  by (simp add: message_react_def message_react_body_def catch_emit_def)

lemma message_react_malformed:
  "findById (messagesDB s) (rc_messageId d) = Inl e \<Longrightarrow>
   message_react sid now (Some d) s = (s, [(ToSocket sid, ErrorEv ''Failed to add reaction'')])"
  by (simp add: message_react_def message_react_body_def catch_emit_def)

lemma message_react_rejected:
  assumes "findById (messagesDB s) (rc_messageId d) = Inr (Some m)"
    and "find (same_reaction (rc_userId d) (rc_emoji d)) (reactions m) = None"
    and "\<not> required_string (rc_emoji d) \<or> \<not> required_objectId (rc_userId d)"
  shows "message_react sid now (Some d) s = (s, [(ToSocket sid, ErrorEv ''Failed to add reaction'')])"
  using assms
  by (auto simp: message_react_def message_react_body_def catch_emit_def Let_def
        toggle_reactions_def Message_save_def valid_message_def valid_reaction_def
        required_string_def required_objectId_def split: option.splits)

lemma react_twice_keys:
  assumes "findById (messagesDB s) (rc_messageId d) = Inr (Some m)" and "valid_message m"
    and "rc_userId d = Some u" and "castObjectId u = Some u" and "rc_emoji d = Some e" and "e \<noteq> []"
  shows "\<exists>m2. findById (messagesDB (fst (message_react sid' now' (Some d) (fst (message_react sid now (Some d) s)))))
                 (rc_messageId d) = Inr (Some m2)
              \<and> reaction_key ` set (reactions m2) = reaction_key ` set (reactions m)"
proof -
  let ?new = "\<lambda>t. \<lparr> r_userId = u, r_emoji = e, r_createdAt = t \<rparr>"
  let ?s1 = "fst (message_react sid now (Some d) s)"
  show ?thesis
  proof (cases "(u, e) \<in> reaction_key ` set (reactions m)")
    case True
    let ?m1 = "m\<lparr>reactions := filter (\<lambda>r. reaction_key r \<noteq> (u, e)) (reactions m), updatedAt := now\<rparr>"
    have s1: "messagesDB ?s1 = map (\<lambda>x. if m_id x = m_id m then ?m1 else x) (messagesDB s)"
      using message_react_found[OF assms, of sid now] True by simp
    have f1: "findById (messagesDB ?s1) (rc_messageId d) = Inr (Some ?m1)"
      unfolding s1 using findById_replace[OF assms(1), of ?m1] by simp
    have v1: "valid_message ?m1" by (rule valid_after_toggle(1)[OF assms(2,6)])
    have absent: "(u, e) \<notin> reaction_key ` set (reactions ?m1)" by auto
    let ?m2 = "?m1\<lparr>reactions := reactions ?m1 @ [?new now'], updatedAt := now'\<rparr>"
    have s2: "messagesDB (fst (message_react sid' now' (Some d) ?s1))
               = map (\<lambda>x. if m_id x = m_id m then ?m2 else x) (messagesDB ?s1)"
      using message_react_found[OF f1 v1 assms(3,4,5,6), of sid' now'] absent by simp
    have f2: "findById (messagesDB (fst (message_react sid' now' (Some d) ?s1))) (rc_messageId d) = Inr (Some ?m2)"
      unfolding s2 using findById_replace[OF f1, of ?m2] by simp
    have "reaction_key ` set (reactions ?m2) = reaction_key ` set (reactions m)"
      using True by (auto simp: reaction_key_def)
    with f2 show ?thesis by blast
  next
    case False
    let ?m1 = "m\<lparr>reactions := reactions m @ [?new now], updatedAt := now\<rparr>"
    have s1: "messagesDB ?s1 = map (\<lambda>x. if m_id x = m_id m then ?m1 else x) (messagesDB s)"
      using message_react_found[OF assms, of sid now] False by simp
    have f1: "findById (messagesDB ?s1) (rc_messageId d) = Inr (Some ?m1)"
      unfolding s1 using findById_replace[OF assms(1), of ?m1] by simp
    have v1: "valid_message ?m1" by (rule valid_after_toggle(2)[OF assms(2,6)])
    have present: "(u, e) \<in> reaction_key ` set (reactions ?m1)" by (simp add: reaction_key_def)
    let ?m2 = "?m1\<lparr>reactions := filter (\<lambda>r. reaction_key r \<noteq> (u, e)) (reactions ?m1), updatedAt := now'\<rparr>"
    have s2: "messagesDB (fst (message_react sid' now' (Some d) ?s1))
               = map (\<lambda>x. if m_id x = m_id m then ?m2 else x) (messagesDB ?s1)"
      using message_react_found[OF f1 v1 assms(3,4,5,6), of sid' now'] present by simp
    have f2: "findById (messagesDB (fst (message_react sid' now' (Some d) ?s1))) (rc_messageId d) = Inr (Some ?m2)"
      unfolding s2 using findById_replace[OF f1, of ?m2] by simp
    have "filter (\<lambda>r. reaction_key r \<noteq> (u, e)) (reactions m) = reactions m"
      using False by (force simp: filter_id_conv image_iff)
    then have "reaction_key ` set (reactions ?m2) = reaction_key ` set (reactions m)"
      by (simp add: reaction_key_def)
    with f2 show ?thesis by blast
  qed
qed

lemma ex_state2_db: "messagesDB ex_state2 = [ex_msg]" "activeUsers ex_state2 = [(''c1'', ex_session ''c1'' 10)]"
  by (simp_all add: ex_state2_def ex_state1_def)

lemma ex_state3_db:
  "messagesDB ex_state3 = [ex_msg\<lparr>reactions := [ex_reaction], updatedAt := 30\<rparr>]"
  "activeUsers ex_state3 = [(''c1'', ex_session ''c1'' 10)]"
  by (simp_all add: ex_state3_def ex_state2_def ex_state1_def)

lemma ex_msg_simps [simp]:
  "m_id ex_msg = ex_m1" "senderId ex_msg = ex_u1" "receiverId ex_msg = ex_u2" "reactions ex_msg = []"
  "m_text ex_msg = ''hi''" "\<not> isEdited ex_msg" "\<not> isRead ex_msg"
  by (simp_all add: ex_msg_def)

lemma ex_msg_valid: "valid_message ex_msg"
  by (simp add: valid_message_def ex_msg_def enum_messageType_def)

lemma ex_to_both: "to_both [(''c1'', ex_session ''c1'' 10)] ex_msg w = [(ToRoom (Some ''c1''), w)]"
  by (simp add: to_both_def find_user_eq_def ex_session_def ex_msg_def)

lemma ex_findById:
  "findById [ex_msg] (Some ex_m1) = Inr (Some ex_msg)"
  "findById [ex_msg] (Some ex_m9) = Inr None"
  by (simp_all add: findById_def ex_msg_def)

lemma ex_findById_malformed: "findById db (Some ''nope'') = Inl CastError"
  by (simp add: findById_def castObjectId_def)

text \<open>
  Claim C5, as stated, fails. The receiver of the stored message reacts with the empty string
  as emoji: no reaction with that pair is stored, yet none is added; the save is rejected and
  the caller gets the generic error event. A message id that does not cast to ObjectId is
  answered with the generic error event, not with \<^verbatim>\<open>Message not found\<close>. And when the
  user id is sent in upper case, the reaction is stored under the id in lower case, the
  second call finds no reaction with the id as sent, and adds a second one.
\<close>

theorem react_toggle_counterexample:
  "findById (messagesDB ex_state2) (rc_messageId (ex_react '''')) = Inr (Some ex_msg)
   \<and> (ex_u2, '''') \<notin> reaction_key ` set (reactions ex_msg)
   \<and> message_react ''c2'' 30 (Some (ex_react '''')) ex_state2
        = (ex_state2, [(ToSocket ''c2'', ErrorEv ''Failed to add reaction'')])
   \<and> message_react ''c2'' 30 (Some ((ex_react ''<3'')\<lparr>rc_messageId := Some ''nope''\<rparr>)) ex_state2
        = (ex_state2, [(ToSocket ''c2'', ErrorEv ''Failed to add reaction'')])
   \<and> messagesDB (fst (message_react ''c2'' 40 (Some ((ex_react ''<3'')\<lparr>rc_userId := Some ex_u2_upper\<rparr>))
                   (fst (message_react ''c2'' 30 (Some ((ex_react ''<3'')\<lparr>rc_userId := Some ex_u2_upper\<rparr>)) ex_state2))))
        = [ex_msg\<lparr>reactions := [ex_reaction, ex_reaction\<lparr>r_createdAt := 40\<rparr>], updatedAt := 40\<rparr>]"
proof -
  have f: "findById (messagesDB ex_state2) (rc_messageId (ex_react e)) = Inr (Some ex_msg)" for e
    by (simp add: ex_state2_db ex_findById ex_react_def)
  have a: "(ex_u2, '''') \<notin> reaction_key ` set (reactions ex_msg)"
    by (simp add: ex_msg_def)
  have r: "message_react ''c2'' 30 (Some (ex_react '''')) ex_state2
        = (ex_state2, [(ToSocket ''c2'', ErrorEv ''Failed to add reaction'')])"
    by (rule message_react_rejected[OF f])
       (simp_all add: ex_react_def ex_msg_def required_string_def)
  have n: "message_react ''c2'' 30 (Some ((ex_react ''<3'')\<lparr>rc_messageId := Some ''nope''\<rparr>)) ex_state2
        = (ex_state2, [(ToSocket ''c2'', ErrorEv ''Failed to add reaction'')])"
    by (rule message_react_malformed[where e = CastError]) (simp add: ex_findById_malformed)
  let ?d = "(ex_react ''<3'')\<lparr>rc_userId := Some ex_u2_upper\<rparr>"
  let ?m1 = "ex_msg\<lparr>reactions := [ex_reaction], updatedAt := 30\<rparr>"
  let ?s1 = "fst (message_react ''c2'' 30 (Some ?d) ex_state2)"
  have d: "rc_userId ?d = Some ex_u2_upper" "rc_emoji ?d = Some ''<3''" "''<3'' \<noteq> []"
    "rc_messageId ?d = Some ex_m1"
    by (simp_all add: ex_react_def)
  have f0: "findById (messagesDB ex_state2) (rc_messageId ?d) = Inr (Some ex_msg)"
    by (simp add: ex_state2_db ex_findById ex_react_def)
  have n0: "find (same_reaction (Some ex_u2_upper) (Some ''<3'')) (reactions ex_msg) = None"
    by (simp add: ex_msg_def)
  have s1: "messagesDB ?s1 = [?m1]"
    using message_react_adds[OF f0 ex_msg_valid d(1) ex_cast(7) d(2,3) n0, of "''c2''" 30]
    by (simp add: ex_state2_db ex_reaction_def)
  have f1: "findById (messagesDB ?s1) (rc_messageId ?d) = Inr (Some ?m1)"
    unfolding s1 d(4) by (simp add: findById_def ex_msg_def)
  have v1: "valid_message ?m1"
    using ex_msg_valid by (simp add: valid_message_def valid_reaction_def ex_reaction_def)
  have n1: "find (same_reaction (Some ex_u2_upper) (Some ''<3'')) (reactions ?m1) = None"
    by (simp add: same_reaction_def ex_reaction_def)
  have u: "messagesDB (fst (message_react ''c2'' 40 (Some ?d) ?s1))
        = [ex_msg\<lparr>reactions := [ex_reaction, ex_reaction\<lparr>r_createdAt := 40\<rparr>], updatedAt := 40\<rparr>]"
    using message_react_adds[OF f1 v1 d(1) ex_cast(7) d(2,3) n1, of "''c2''" 40]
    by (simp add: s1 ex_reaction_def)
  show ?thesis
    using f[of "''''"] a r n u by simp
qed

text \<open>
  Claim C5, amended. For a stored message, a user id in the form the store writes it (24
  hexadecimal digits in lower case) and an emoji that is not the empty string: when the
  message has no reaction of that user with that emoji, reacting appends one and reports
  \<^verbatim>\<open>added\<close>; when it has one, reacting removes the reactions of that user with that emoji,
  keeps every other reaction, and reports \<^verbatim>\<open>removed\<close>. After two reactions with the same
  arguments the message carries the same (user, emoji) pairs as before. Reacting to a message
  id that is left out, or that casts to ObjectId and is not stored, sends
  \<^verbatim>\<open>Message not found\<close> to the caller and leaves the state as it was. A message id that does
  not cast, and an addition with an emoji that is empty or left out or with a user id that is
  left out or does not cast, send the generic error event \<^verbatim>\<open>Failed to add reaction\<close> and
  leave the state as it was.
\<close>

theorem react_toggles:
  assumes "findById (messagesDB s) (rc_messageId d) = Inr (Some m)" and "valid_message m"
    and "rc_userId d = Some u" and "castObjectId u = Some u" and "rc_emoji d = Some e" and "e \<noteq> []"
  shows
    "((u, e) \<notin> reaction_key ` set (reactions m) \<longrightarrow>
        findById (messagesDB (fst (message_react sid now (Some d) s))) (rc_messageId d)
          = Inr (Some (m\<lparr>reactions := reactions m @ [\<lparr> r_userId = u, r_emoji = e, r_createdAt = now \<rparr>],
                          updatedAt := now\<rparr>))
        \<and> snd (message_react sid now (Some d) s)
          = to_both (activeUsers s) m
              (MessageReaction (rc_messageId d) (reactions m @ [\<lparr> r_userId = u, r_emoji = e, r_createdAt = now \<rparr>])
                 (Some u) (Some e) ''added''))
     \<and> ((u, e) \<in> reaction_key ` set (reactions m) \<longrightarrow>
        findById (messagesDB (fst (message_react sid now (Some d) s))) (rc_messageId d)
          = Inr (Some (m\<lparr>reactions := filter (\<lambda>r. reaction_key r \<noteq> (u, e)) (reactions m), updatedAt := now\<rparr>))
        \<and> snd (message_react sid now (Some d) s)
          = to_both (activeUsers s) m
              (MessageReaction (rc_messageId d) (filter (\<lambda>r. reaction_key r \<noteq> (u, e)) (reactions m))
                 (Some u) (Some e) ''removed''))
     \<and> (\<exists>m2. findById (messagesDB (fst (message_react sid' now' (Some d) (fst (message_react sid now (Some d) s)))))
                 (rc_messageId d) = Inr (Some m2)
              \<and> reaction_key ` set (reactions m2) = reaction_key ` set (reactions m))
     \<and> (findById (messagesDB s) (rc_messageId d') = Inr None \<longrightarrow>
          message_react sid now (Some d') s = (s, [(ToSocket sid, ErrorEv ''Message not found'')]))
     \<and> (findById (messagesDB s) (rc_messageId d') = Inl CastError \<longrightarrow>
          message_react sid now (Some d') s = (s, [(ToSocket sid, ErrorEv ''Failed to add reaction'')]))
     \<and> (rc_messageId d' = rc_messageId d
          \<and> find (same_reaction (rc_userId d') (rc_emoji d')) (reactions m) = None
          \<and> (\<not> required_string (rc_emoji d') \<or> \<not> required_objectId (rc_userId d')) \<longrightarrow>
          message_react sid now (Some d') s = (s, [(ToSocket sid, ErrorEv ''Failed to add reaction'')]))"
proof -
  have p1: "findById (messagesDB (fst (message_react sid now (Some d) s))) (rc_messageId d)
          = Inr (Some (m\<lparr>reactions := reactions m @ [\<lparr> r_userId = u, r_emoji = e, r_createdAt = now \<rparr>],
                          updatedAt := now\<rparr>))
        \<and> snd (message_react sid now (Some d) s)
          = to_both (activeUsers s) m
              (MessageReaction (rc_messageId d) (reactions m @ [\<lparr> r_userId = u, r_emoji = e, r_createdAt = now \<rparr>])
                 (Some u) (Some e) ''added'')"
    if a: "(u, e) \<notin> reaction_key ` set (reactions m)"
  proof -
    let ?m1 = "m\<lparr>reactions := reactions m @ [\<lparr> r_userId = u, r_emoji = e, r_createdAt = now \<rparr>], updatedAt := now\<rparr>"
    have r: "message_react sid now (Some d) s
        = (s\<lparr>messagesDB := map (\<lambda>x. if m_id x = m_id m then ?m1 else x) (messagesDB s)\<rparr>,
           to_both (activeUsers s) m
              (MessageReaction (rc_messageId d) (reactions m @ [\<lparr> r_userId = u, r_emoji = e, r_createdAt = now \<rparr>])
                 (Some u) (Some e) ''added''))"
      using message_react_found[OF assms, of sid now] a by simp
    show ?thesis
      unfolding r using findById_replace[OF assms(1), of ?m1] by simp
  qed
  have p2: "findById (messagesDB (fst (message_react sid now (Some d) s))) (rc_messageId d)
          = Inr (Some (m\<lparr>reactions := filter (\<lambda>r. reaction_key r \<noteq> (u, e)) (reactions m), updatedAt := now\<rparr>))
        \<and> snd (message_react sid now (Some d) s)
          = to_both (activeUsers s) m
              (MessageReaction (rc_messageId d) (filter (\<lambda>r. reaction_key r \<noteq> (u, e)) (reactions m))
                 (Some u) (Some e) ''removed'')"
    if a: "(u, e) \<in> reaction_key ` set (reactions m)"
  proof -
    let ?m1 = "m\<lparr>reactions := filter (\<lambda>r. reaction_key r \<noteq> (u, e)) (reactions m), updatedAt := now\<rparr>"
    have r: "message_react sid now (Some d) s
        = (s\<lparr>messagesDB := map (\<lambda>x. if m_id x = m_id m then ?m1 else x) (messagesDB s)\<rparr>,
           to_both (activeUsers s) m
              (MessageReaction (rc_messageId d) (filter (\<lambda>r. reaction_key r \<noteq> (u, e)) (reactions m))
                 (Some u) (Some e) ''removed''))"
      using message_react_found[OF assms, of sid now] a by simp
    show ?thesis
      unfolding r using findById_replace[OF assms(1), of ?m1] by simp
  qed
  note p3 = react_twice_keys[OF assms, of sid' now' sid now]
  have p4: "message_react sid now (Some d') s = (s, [(ToSocket sid, ErrorEv ''Message not found'')])"
    if "findById (messagesDB s) (rc_messageId d') = Inr None"
    by (rule message_react_unknown[OF that])
  have p5: "message_react sid now (Some d') s = (s, [(ToSocket sid, ErrorEv ''Failed to add reaction'')])"
    if "findById (messagesDB s) (rc_messageId d') = Inl CastError"
    by (rule message_react_malformed[OF that])
  have p6: "message_react sid now (Some d') s = (s, [(ToSocket sid, ErrorEv ''Failed to add reaction'')])"
    if "rc_messageId d' = rc_messageId d"
      "find (same_reaction (rc_userId d') (rc_emoji d')) (reactions m) = None"
      "\<not> required_string (rc_emoji d') \<or> \<not> required_objectId (rc_userId d')"
    using message_react_rejected[of s d' m sid now] assms(1) that by simp
  show ?thesis
    using p1 p2 p3 p4 p5 p6 by blast
qed

theorem react_toggles_witness:
  "findById (messagesDB ex_state2) (rc_messageId (ex_react ''<3'')) = Inr (Some ex_msg) \<and> valid_message ex_msg
   \<and> castObjectId ex_u2 = Some ex_u2
   \<and> (ex_u2, ''<3'') \<notin> reaction_key ` set (reactions ex_msg)
   \<and> findById (messagesDB (fst (message_react ''c2'' 30 (Some (ex_react ''<3'')) ex_state2))) (Some ex_m1)
        = Inr (Some (ex_msg\<lparr>reactions := [ex_reaction], updatedAt := 30\<rparr>))
   \<and> snd (message_react ''c2'' 30 (Some (ex_react ''<3'')) ex_state2)
        = [(ToRoom (Some ''c1''), MessageReaction (Some ex_m1) [ex_reaction] (Some ex_u2) (Some ''<3'') ''added'')]
   \<and> findById (messagesDB ex_state3) (Some ex_m1) = Inr (Some (ex_msg\<lparr>reactions := [ex_reaction], updatedAt := 30\<rparr>))
   \<and> (ex_u2, ''<3'') \<in> reaction_key ` set [ex_reaction]
   \<and> findById (messagesDB (fst (message_react ''c2'' 40 (Some (ex_react ''<3'')) ex_state3))) (Some ex_m1)
        = Inr (Some (ex_msg\<lparr>reactions := [], updatedAt := 40\<rparr>))
   \<and> snd (message_react ''c2'' 40 (Some (ex_react ''<3'')) ex_state3)
        = [(ToRoom (Some ''c1''), MessageReaction (Some ex_m1) [] (Some ex_u2) (Some ''<3'') ''removed'')]
   \<and> findById (messagesDB ex_state2) (rc_messageId ((ex_react ''<3'')\<lparr>rc_messageId := Some ex_m9\<rparr>)) = Inr None
   \<and> message_react ''c2'' 30 (Some ((ex_react ''<3'')\<lparr>rc_messageId := Some ex_m9\<rparr>)) ex_state2
        = (ex_state2, [(ToSocket ''c2'', ErrorEv ''Message not found'')])
   \<and> findById (messagesDB ex_state3) (rc_messageId ((ex_react ''<3'')\<lparr>rc_messageId := Some ''nope''\<rparr>)) = Inl CastError
   \<and> message_react ''c2'' 40 (Some ((ex_react ''<3'')\<lparr>rc_messageId := Some ''nope''\<rparr>)) ex_state3
        = (ex_state3, [(ToSocket ''c2'', ErrorEv ''Failed to add reaction'')])
   \<and> \<not> required_string (rc_emoji (ex_react ''''))
   \<and> message_react ''c2'' 30 (Some (ex_react '''')) ex_state2
        = (ex_state2, [(ToSocket ''c2'', ErrorEv ''Failed to add reaction'')])"
proof -
  let ?m3 = "ex_msg\<lparr>reactions := [ex_reaction], updatedAt := 30\<rparr>"
  let ?d = "ex_react ''<3''"
  let ?d9 = "(ex_react ''<3'')\<lparr>rc_messageId := Some ex_m9\<rparr>"
  let ?dn = "(ex_react ''<3'')\<lparr>rc_messageId := Some ''nope''\<rparr>"
  have d: "rc_userId ?d = Some ex_u2" "rc_emoji ?d = Some ''<3''" "rc_messageId ?d = Some ex_m1"
    by (simp_all add: ex_react_def)
  have f2: "findById (messagesDB ex_state2) (rc_messageId ?d) = Inr (Some ex_msg)"
    by (simp add: ex_state2_db ex_findById d)
  have f3: "findById (messagesDB ex_state3) (rc_messageId ?d) = Inr (Some ?m3)"
    by (simp add: ex_state3_db findById_def d)
  have v3: "valid_message ?m3"
    using ex_msg_valid by (simp add: valid_message_def valid_reaction_def ex_reaction_def)
  have ne: "''<3'' \<noteq> []" by simp
  have absent: "(ex_u2, ''<3'') \<notin> reaction_key ` set (reactions ex_msg)"
    by simp
  have present: "(ex_u2, ''<3'') \<in> reaction_key ` set (reactions ?m3)"
    by (simp add: reaction_key_def ex_reaction_def)
  have unknown: "findById (messagesDB ex_state2) (rc_messageId ?d9) = Inr None"
    by (simp add: ex_state2_db ex_findById)
  have malformed: "findById (messagesDB ex_state3) (rc_messageId ?dn) = Inl CastError"
    by (simp add: ex_findById_malformed)
  have e0: "rc_messageId (ex_react '''') = rc_messageId ?d"
    "find (same_reaction (rc_userId (ex_react '''')) (rc_emoji (ex_react ''''))) (reactions ex_msg) = None"
    "\<not> required_string (rc_emoji (ex_react ''''))"
    by (simp_all add: ex_react_def required_string_def)
  note t2 = react_toggles[OF f2 ex_msg_valid d(1) ex_cast(2) d(2) ne, where sid = "''c2''" and now = 30]
  note t3 = react_toggles[OF f3 v3 d(1) ex_cast(2) d(2) ne, where sid = "''c2''" and now = 40]
  have a1: "findById (messagesDB (fst (message_react ''c2'' 30 (Some ?d) ex_state2))) (Some ex_m1) = Inr (Some ?m3)"
    using t2 absent by (simp add: d ex_reaction_def)
  have a2: "snd (message_react ''c2'' 30 (Some ?d) ex_state2)
        = [(ToRoom (Some ''c1''), MessageReaction (Some ex_m1) [ex_reaction] (Some ex_u2) (Some ''<3'') ''added'')]"
    using t2 absent by (simp add: d ex_state2_db ex_to_both ex_reaction_def)
  have r1: "findById (messagesDB (fst (message_react ''c2'' 40 (Some ?d) ex_state3))) (Some ex_m1)
        = Inr (Some (ex_msg\<lparr>reactions := [], updatedAt := 40\<rparr>))"
    using t3 present by (simp add: d reaction_key_def ex_reaction_def)
  have r2: "snd (message_react ''c2'' 40 (Some ?d) ex_state3)
        = [(ToRoom (Some ''c1''), MessageReaction (Some ex_m1) [] (Some ex_u2) (Some ''<3'') ''removed'')]"
    using t3 present ex_to_both[of "MessageReaction (Some ex_m1) [] (Some ex_u2) (Some ''<3'') ''removed''"]
    by (simp add: d ex_state3_db to_both_def reaction_key_def ex_reaction_def)
  have u: "message_react ''c2'' 30 (Some ?d9) ex_state2
        = (ex_state2, [(ToSocket ''c2'', ErrorEv ''Message not found'')])"
    using t2[where d' = ?d9] unknown by blast
  have n: "message_react ''c2'' 40 (Some ?dn) ex_state3
        = (ex_state3, [(ToSocket ''c2'', ErrorEv ''Failed to add reaction'')])"
    using t3[where d' = ?dn] malformed by blast
  have z: "message_react ''c2'' 30 (Some (ex_react '''')) ex_state2
        = (ex_state2, [(ToSocket ''c2'', ErrorEv ''Failed to add reaction'')])"
    using t2[where d' = "ex_react ''''"] e0 by blast
  have f3': "findById (messagesDB ex_state3) (Some ex_m1) = Inr (Some ?m3)"
    using f3 by (simp add: d)
  show ?thesis
    using f2 ex_msg_valid absent a1 a2 f3' present unknown u malformed n e0(3) z r1 r2 by simp
qed
lemma message_edit_not_owner:
  "findById (messagesDB s) (e_messageId d) = Inr (Some m) \<Longrightarrow> e_userId d \<noteq> Some (senderId m) \<Longrightarrow>
   message_edit sid now (Some d) s = (s, [(ToSocket sid, ErrorEv ''You can only edit your own messages'')])"
  by (auto simp: message_edit_def message_edit_body_def catch_emit_def)

lemma message_edit_owner:
  assumes "findById (messagesDB s) (e_messageId d) = Inr (Some m)" and "valid_message m"
    and "e_userId d = Some (senderId m)" and "e_newText d = Some t" and "t \<noteq> []"
  shows "message_edit sid now (Some d) s =
     (s\<lparr>messagesDB := map (\<lambda>x. if m_id x = m_id m
              then m\<lparr>m_text := t, isEdited := True, editedAt := Some now, updatedAt := now\<rparr>
              else x) (messagesDB s)\<rparr>,
      to_both (activeUsers s) m (MessageEdited (e_messageId d) (Some t) (Some now) (Some (senderId m))))"
proof -
  have v: "valid_message (m\<lparr>m_text := t, isEdited := True, editedAt := Some now\<rparr>)"
    using assms(2,5) by (simp add: valid_message_def)
  show ?thesis
    using assms(1,3,4) v
    by (simp add: message_edit_def message_edit_body_def catch_emit_def Message_save_def)
qed

lemma message_edit_no_text:
  assumes "findById (messagesDB s) (e_messageId d) = Inr (Some m)"
    and "e_userId d = Some (senderId m)" and "\<not> required_string (e_newText d)"
  shows "message_edit sid now (Some d) s = (s, [(ToSocket sid, ErrorEv ''Failed to edit message'')])"
  using assms
  by (auto simp: message_edit_def message_edit_body_def catch_emit_def Message_save_def
        valid_message_def required_string_def split: option.splits)

text \<open>
  Claim C6, as stated, fails: the sender of a stored message edits it with the empty text.
  The save is rejected by the required rule on the text, the message keeps its text and is
  not marked edited, and the sender gets the generic error event.
\<close>

theorem edit_empty_text_counterexample:
  "findById (messagesDB ex_state2) (Some ex_m1) = Inr (Some ex_msg) \<and> senderId ex_msg = ex_u1
   \<and> message_edit ''c1'' 30 (Some (ex_edit ex_u1 '''')) ex_state2
        = (ex_state2, [(ToSocket ''c1'', ErrorEv ''Failed to edit message'')])
   \<and> m_text ex_msg = ''hi'' \<and> \<not> isEdited ex_msg"
proof -
  have f: "findById (messagesDB ex_state2) (e_messageId (ex_edit ex_u1 '''')) = Inr (Some ex_msg)"
    by (simp add: ex_state2_db ex_findById ex_edit_def)
  have o: "e_userId (ex_edit ex_u1 '''') = Some (senderId ex_msg)"
    by (simp add: ex_edit_def)
  have n: "\<not> required_string (e_newText (ex_edit ex_u1 ''''))"
    by (simp add: ex_edit_def required_string_def)
  show ?thesis
    using f message_edit_no_text[OF f o n, of "''c1''" 30]
    by (simp add: ex_edit_def)
qed

text \<open>
  Claim C6, amended. For a stored message: an edit by anyone but its sender is refused with
  the permission error and the state stays as it was. An edit by its sender with a text that
  is not empty is written: the message gets the new text, is marked edited at the current
  time, and both participants that are online are told. An edit by its sender with an empty
  or missing text is rejected on save: the state stays as it was and the sender gets the
  generic error event \<^verbatim>\<open>Failed to edit message\<close>.
\<close>

theorem edit_owner_only:
  assumes "findById (messagesDB s) (Some i) = Inr (Some m)" and "valid_message m" and "e_messageId d = Some i"
  shows
    "(e_userId d \<noteq> Some (senderId m) \<longrightarrow>
        message_edit sid now (Some d) s
          = (s, [(ToSocket sid, ErrorEv ''You can only edit your own messages'')]))
     \<and> (e_userId d = Some (senderId m) \<and> e_newText d = Some t \<and> t \<noteq> [] \<longrightarrow>
          findById (messagesDB (fst (message_edit sid now (Some d) s))) (Some i)
            = Inr (Some (m\<lparr>m_text := t, isEdited := True, editedAt := Some now, updatedAt := now\<rparr>))
          \<and> snd (message_edit sid now (Some d) s)
            = to_both (activeUsers s) m (MessageEdited (Some i) (Some t) (Some now) (Some (senderId m))))
     \<and> (e_userId d = Some (senderId m) \<and> \<not> required_string (e_newText d) \<longrightarrow>
          message_edit sid now (Some d) s = (s, [(ToSocket sid, ErrorEv ''Failed to edit message'')]))"
proof -
  have f: "findById (messagesDB s) (e_messageId d) = Inr (Some m)"
    using assms(1,3) by simp
  have p1: "message_edit sid now (Some d) s
          = (s, [(ToSocket sid, ErrorEv ''You can only edit your own messages'')])"
    if "e_userId d \<noteq> Some (senderId m)"
    by (rule message_edit_not_owner[OF f that])
  have p2: "findById (messagesDB (fst (message_edit sid now (Some d) s))) (Some i)
            = Inr (Some (m\<lparr>m_text := t, isEdited := True, editedAt := Some now, updatedAt := now\<rparr>))
          \<and> snd (message_edit sid now (Some d) s)
            = to_both (activeUsers s) m (MessageEdited (Some i) (Some t) (Some now) (Some (senderId m)))"
    if "e_userId d = Some (senderId m)" "e_newText d = Some t" "t \<noteq> []"
    using message_edit_owner[OF f assms(2) that, of sid now]
      findById_replace[OF assms(1), of "m\<lparr>m_text := t, isEdited := True, editedAt := Some now, updatedAt := now\<rparr>"]
      assms(3)
    by simp
  have p3: "message_edit sid now (Some d) s = (s, [(ToSocket sid, ErrorEv ''Failed to edit message'')])"
    if "e_userId d = Some (senderId m)" "\<not> required_string (e_newText d)"
    by (rule message_edit_no_text[OF f that])
  show ?thesis
    using p1 p2 p3 by blast
qed

theorem edit_owner_only_witness:
  "findById (messagesDB ex_state2) (Some ex_m1) = Inr (Some ex_msg) \<and> valid_message ex_msg
   \<and> e_userId (ex_edit ex_u2 ''hello'') \<noteq> Some (senderId ex_msg)
   \<and> message_edit ''c2'' 30 (Some (ex_edit ex_u2 ''hello'')) ex_state2
        = (ex_state2, [(ToSocket ''c2'', ErrorEv ''You can only edit your own messages'')])
   \<and> e_userId (ex_edit ex_u1 ''hello'') = Some (senderId ex_msg)
   \<and> findById (messagesDB (fst (message_edit ''c1'' 30 (Some (ex_edit ex_u1 ''hello'')) ex_state2))) (Some ex_m1)
        = Inr (Some (ex_msg\<lparr>m_text := ''hello'', isEdited := True, editedAt := Some 30, updatedAt := 30\<rparr>))
   \<and> snd (message_edit ''c1'' 30 (Some (ex_edit ex_u1 ''hello'')) ex_state2)
        = [(ToRoom (Some ''c1''), MessageEdited (Some ex_m1) (Some ''hello'') (Some 30) (Some ex_u1))]
   \<and> \<not> required_string (e_newText (ex_edit ex_u1 ''''))
   \<and> message_edit ''c1'' 30 (Some (ex_edit ex_u1 '''')) ex_state2
        = (ex_state2, [(ToSocket ''c1'', ErrorEv ''Failed to edit message'')])"
proof -
  have f: "findById (messagesDB ex_state2) (Some ex_m1) = Inr (Some ex_msg)"
    by (simp add: ex_state2_db ex_findById)
  have i: "e_messageId (ex_edit u t) = Some ex_m1" for u t
    by (simp add: ex_edit_def)
  have h1: "e_userId (ex_edit ex_u2 ''hello'') \<noteq> Some (senderId ex_msg)"
    by (simp add: ex_edit_def)
  have h2: "e_userId (ex_edit ex_u1 t) = Some (senderId ex_msg)" "e_newText (ex_edit ex_u1 t) = Some t" for t
    by (simp_all add: ex_edit_def)
  have h3: "\<not> required_string (e_newText (ex_edit ex_u1 ''''))"
    by (simp add: ex_edit_def required_string_def)
  have ne: "''hello'' \<noteq> []" by simp
  have c1: "message_edit ''c2'' 30 (Some (ex_edit ex_u2 ''hello'')) ex_state2
        = (ex_state2, [(ToSocket ''c2'', ErrorEv ''You can only edit your own messages'')])"
    using edit_owner_only[where d = "ex_edit ex_u2 ''hello''" and sid = "''c2''" and now = 30, OF f ex_msg_valid i] h1 by blast
  have c2: "findById (messagesDB (fst (message_edit ''c1'' 30 (Some (ex_edit ex_u1 ''hello'')) ex_state2))) (Some ex_m1)
        = Inr (Some (ex_msg\<lparr>m_text := ''hello'', isEdited := True, editedAt := Some 30, updatedAt := 30\<rparr>))
      \<and> snd (message_edit ''c1'' 30 (Some (ex_edit ex_u1 ''hello'')) ex_state2)
        = to_both (activeUsers ex_state2) ex_msg (MessageEdited (Some ex_m1) (Some ''hello'') (Some 30) (Some (senderId ex_msg)))"
    using edit_owner_only[where d = "ex_edit ex_u1 ''hello''" and sid = "''c1''" and now = 30 and t = "''hello''", OF f ex_msg_valid i] h2 ne by blast
  have c3: "message_edit ''c1'' 30 (Some (ex_edit ex_u1 '''')) ex_state2
        = (ex_state2, [(ToSocket ''c1'', ErrorEv ''Failed to edit message'')])"
    using edit_owner_only[where d = "ex_edit ex_u1 ''''" and sid = "''c1''" and now = 30, OF f ex_msg_valid i] h2 h3 by blast
  show ?thesis
    using f ex_msg_valid h1 h2 h3 c1 c2 c3 by (simp add: ex_state2_db ex_to_both)
qed

section \<open>History\<close>

lemma chat_get_history_unfold:
  "chat_get_history sid (Some h) s =
     (case history_items (usersDB s) (messagesDB s)
             (rev (limit_cursor (case h_limit h of None \<Rightarrow> 50 | Some k \<Rightarrow> k)
                    (rev (sort_key createdAt
                       (Message_find (messagesDB s) (conversationId_of (h_userId h) (h_targetUserId h))))))) of
        Inl e \<Rightarrow> (s, [(ToSocket sid, ErrorEv ''Failed to load chat history'')])
      | Inr items \<Rightarrow> (s, [(ToSocket sid, ChatHistory (conversationId_of (h_userId h) (h_targetUserId h)) items)]))"
  by (simp add: chat_get_history_def chat_get_history_body_def catch_emit_def Let_def
        sort_createdAt_desc_def split: sum.splits)

lemma rev_limit_cursor:
  "rev (limit_cursor n (rev xs)) = (if n = 0 then xs else drop (length xs - n) xs)"
  by (simp add: limit_cursor_def rev_take)

lemma sorted_append_le:
  "sorted (map f (xs @ ys)) \<Longrightarrow> \<forall>x\<in>set xs. \<forall>y\<in>set ys. f x \<le> f y"
  by (auto simp: sorted_append)

lemma ex_history_zero:
  "chat_get_history ''s2'' (Some (ex_hist\<lparr>h_limit := Some 0\<rparr>)) ex_state1
     = (ex_state1, [(ToSocket ''s2'', ChatHistory ex_conv [ex_item])])"
  by (simp add: chat_get_history_def catch_emit_def ex_history_all)

text \<open>
  Claim C7, as stated, fails at the limit 0: the store reads a limit of 0 as no limit, so a
  conversation of one message is returned whole, one entry more than the limit.
\<close>

theorem history_limit_zero_counterexample:
  "h_limit (ex_hist\<lparr>h_limit := Some 0\<rparr>) = Some 0
   \<and> chat_get_history ''s2'' (Some (ex_hist\<lparr>h_limit := Some 0\<rparr>)) ex_state1
        = (ex_state1, [(ToSocket ''s2'', ChatHistory ex_conv [ex_item])])
   \<and> \<not> length [ex_item] \<le> 0"
  using ex_history_zero by simp

text \<open>
  Claim C7, amended. Let \<open>n\<close> be the limit of the request, 50 when the request gives none. Every
  reply of the history handler is in ascending order of creation time and leaves the state as
  it was. For \<open>n \<ge> 1\<close> the reply has \<open>min n k\<close> entries, \<open>k\<close> the number of messages of
  the conversation, and they are the most recent ones: the conversation splits into the
  messages left out and the messages returned, and no message left out was created after a
  returned one. For \<open>n = 0\<close> the reply has all \<open>k\<close> messages. The handler replies whenever the
  sender of every message of the conversation is in the collection of users.
\<close>

theorem history_most_recent:
  assumes "(case h_limit h of None \<Rightarrow> 50 | Some k \<Rightarrow> k) = n"
  shows
    "(list_all (\<lambda>m. usersDB s (senderId m) \<noteq> None)
         (Message_find (messagesDB s) (conversationId_of (h_userId h) (h_targetUserId h))) \<longrightarrow>
        (\<exists>items. chat_get_history sid (Some h) s
           = (s, [(ToSocket sid, ChatHistory (conversationId_of (h_userId h) (h_targetUserId h)) items)])))
     \<and> (chat_get_history sid (Some h) s = (s', [(ToSocket sid, ChatHistory c items)]) \<longrightarrow>
          s' = s \<and> c = conversationId_of (h_userId h) (h_targetUserId h)
          \<and> sorted (map hi_timestamp items)
          \<and> (0 < n \<longrightarrow> length items \<le> n)
          \<and> length items = (if n = 0 then length (Message_find (messagesDB s) c)
                             else min n (length (Message_find (messagesDB s) c)))
          \<and> (\<exists>older returned.
                set (older @ returned) = set (Message_find (messagesDB s) c)
                \<and> length (older @ returned) = length (Message_find (messagesDB s) c)
                \<and> map hi_id items = map m_id returned
                \<and> map hi_timestamp items = map createdAt returned
                \<and> (\<forall>m\<in>set older. \<forall>r\<in>set returned. createdAt m \<le> createdAt r)))"
proof (intro conjI impI)
  let ?cid = "conversationId_of (h_userId h) (h_targetUserId h)"
  let ?conv = "Message_find (messagesDB s) ?cid"
  let ?S = "sort_key createdAt ?conv"
  let ?ret = "if n = 0 then ?S else drop (length ?S - n) ?S"
  let ?old = "if n = 0 then [] else take (length ?S - n) ?S"
  have unf: "chat_get_history sid (Some h) s =
     (case history_items (usersDB s) (messagesDB s) ?ret of
        Inl e \<Rightarrow> (s, [(ToSocket sid, ErrorEv ''Failed to load chat history'')])
      | Inr items \<Rightarrow> (s, [(ToSocket sid, ChatHistory ?cid items)]))"
    unfolding chat_get_history_unfold assms rev_limit_cursor ..
  have split: "?old @ ?ret = ?S" by simp
  {
    assume "list_all (\<lambda>m. usersDB s (senderId m) \<noteq> None) ?conv"
    then have "list_all (\<lambda>m. usersDB s (senderId m) \<noteq> None) ?ret"
      by (auto simp: list_all_iff dest: in_set_dropD)
    then obtain "is" where "history_items (usersDB s) (messagesDB s) ?ret = Inr is"
      using history_items_total by blast
    then show "\<exists>items. chat_get_history sid (Some h) s = (s, [(ToSocket sid, ChatHistory ?cid items)])"
      unfolding unf by simp
  }
  assume r: "chat_get_history sid (Some h) s = (s', [(ToSocket sid, ChatHistory c items)])"
  then have hi: "history_items (usersDB s) (messagesDB s) ?ret = Inr items" and s': "s' = s" and c: "c = ?cid"
    unfolding unf by (auto split: sum.splits)
  note m = history_items_Inr[OF hi]
  show "s' = s" by (rule s')
  show "c = ?cid" by (rule c)
  have sorted_S: "sorted (map createdAt ?S)" by simp
  have sorted_ret: "sorted (map createdAt ?ret)"
    using sorted_S by (simp add: sorted_wrt_drop drop_map[symmetric] del: sorted_sort_key)
  show "sorted (map hi_timestamp items)"
    using m sorted_ret by simp
  have len: "length items = length ?ret"
    using m by (metis length_map)
  show "length items \<le> n" if "0 < n"
    using that len by simp
  show "length items = (if n = 0 then length (Message_find (messagesDB s) c)
                             else min n (length (Message_find (messagesDB s) c)))"
    using len c by auto
  have le: "\<forall>m\<in>set ?old. \<forall>r\<in>set ?ret. createdAt m \<le> createdAt r"
    using sorted_append_le[of createdAt ?old ?ret] sorted_S unfolding split by blast
  have "set (?old @ ?ret) = set (Message_find (messagesDB s) c)
        \<and> length (?old @ ?ret) = length (Message_find (messagesDB s) c)
        \<and> map hi_id items = map m_id ?ret
        \<and> map hi_timestamp items = map createdAt ?ret
        \<and> (\<forall>m\<in>set ?old. \<forall>r\<in>set ?ret. createdAt m \<le> createdAt r)"
    unfolding split using m le c by simp
  then show "\<exists>older returned.
                set (older @ returned) = set (Message_find (messagesDB s) c)
                \<and> length (older @ returned) = length (Message_find (messagesDB s) c)
                \<and> map hi_id items = map m_id returned
                \<and> map hi_timestamp items = map createdAt returned
                \<and> (\<forall>m\<in>set older. \<forall>r\<in>set returned. createdAt m \<le> createdAt r)"
    by blast
qed

lemma ex_hist2_conv:
  "Message_find (messagesDB ex_state_hist) (conversationId_of (h_userId ex_hist2) (h_targetUserId ex_hist2))
     = [ex_msg_at ex_m1 5 ''one'', ex_msg_at ex_m2 7 ''two'', ex_msg_at ex_m3 9 ''three'']"
  by (simp add: ex_state_hist_def ex_hist2_def Message_find_def ex_msg_at_def ex_msg_def)

lemma ex_history_two:
  "chat_get_history ''s2'' (Some ex_hist2) ex_state_hist
     = (ex_state_hist, [(ToSocket ''s2'', ChatHistory ex_conv [ex_item_at ex_m2 7 ''two'', ex_item_at ex_m3 9 ''three''])])"
  unfolding chat_get_history_unfold ex_hist2_conv
  by (simp add: ex_hist2_def ex_state_hist_def init_state_def ex_msg_at_def ex_msg_def
        ex_item_at_def ex_item_def limit_cursor_def history_item_def)

theorem history_most_recent_witness:
  "(case h_limit ex_hist2 of None \<Rightarrow> 50 | Some k \<Rightarrow> k) = 2
   \<and> list_all (\<lambda>m. usersDB ex_state_hist (senderId m) \<noteq> None)
        (Message_find (messagesDB ex_state_hist) (conversationId_of (h_userId ex_hist2) (h_targetUserId ex_hist2)))
   \<and> chat_get_history ''s2'' (Some ex_hist2) ex_state_hist
        = (ex_state_hist, [(ToSocket ''s2'', ChatHistory ex_conv [ex_item_at ex_m2 7 ''two'', ex_item_at ex_m3 9 ''three''])])
   \<and> length (Message_find (messagesDB ex_state_hist) ex_conv) = 3
   \<and> sorted (map hi_timestamp [ex_item_at ex_m2 7 ''two'', ex_item_at ex_m3 9 ''three''])
   \<and> length [ex_item_at ex_m2 7 ''two'', ex_item_at ex_m3 9 ''three''] \<le> 2
   \<and> (\<exists>older returned.
         set (older @ returned) = set (Message_find (messagesDB ex_state_hist) ex_conv)
         \<and> length (older @ returned) = length (Message_find (messagesDB ex_state_hist) ex_conv)
         \<and> map hi_id [ex_item_at ex_m2 7 ''two'', ex_item_at ex_m3 9 ''three''] = map m_id returned
         \<and> map hi_timestamp [ex_item_at ex_m2 7 ''two'', ex_item_at ex_m3 9 ''three''] = map createdAt returned
         \<and> (\<forall>m\<in>set older. \<forall>r\<in>set returned. createdAt m \<le> createdAt r))"
proof -
  have l: "(case h_limit ex_hist2 of None \<Rightarrow> 50 | Some k \<Rightarrow> k) = 2"
    by (simp add: ex_hist2_def)
  have cid: "conversationId_of (h_userId ex_hist2) (h_targetUserId ex_hist2) = ex_conv"
    by (simp add: ex_hist2_def)
  have u: "list_all (\<lambda>m. usersDB ex_state_hist (senderId m) \<noteq> None)
        (Message_find (messagesDB ex_state_hist) (conversationId_of (h_userId ex_hist2) (h_targetUserId ex_hist2)))"
    unfolding ex_hist2_conv
    by (simp add: ex_state_hist_def init_state_def ex_msg_at_def)
  have k: "length (Message_find (messagesDB ex_state_hist) ex_conv) = 3"
    using ex_hist2_conv unfolding cid by simp
  note t = history_most_recent[OF l, of ex_state_hist "''s2''" ex_state_hist ex_conv
             "[ex_item_at ex_m2 7 ''two'', ex_item_at ex_m3 9 ''three'']"]
  have two: "(0::nat) < 2" by simp
  show ?thesis
    using l u k ex_history_two t two by blast
qed

section \<open>Failures of the signaling handlers\<close>

text \<open>
  Claim C9, at the input where it fails. An event sent without a payload makes the handler
  throw while it destructures. The handlers of the call offer and the call answer then send
  the generic error event to the caller; the handlers of the connectivity candidate, of the
  end of a call and of \<^verbatim>\<open>callUser\<close> only log, and the caller is sent nothing.
\<close>

theorem signaling_failure_unreported:
  "webrtc_ice_candidate_body sid None s = Threw TypeError (s, [])
   \<and> webrtc_ice_candidate sid None s = (s, [])
   \<and> call_end_body sid None s = Threw TypeError (s, [])
   \<and> call_end sid None s = (s, [])
   \<and> callUser_body sid None s = Threw TypeError (s, [])
   \<and> callUser sid None s = (s, [])
   \<and> webrtc_offer sid None s = (s, [(ToSocket sid, ErrorEv ''Failed to send call offer'')])
   \<and> webrtc_answer sid None s = (s, [(ToSocket sid, ErrorEv ''Failed to send call answer'')])"
  by (simp add: webrtc_ice_candidate_def webrtc_ice_candidate_body_def call_end_def call_end_body_def
        callUser_def callUser_body_def webrtc_offer_def webrtc_offer_body_def
        webrtc_answer_def webrtc_answer_body_def catch_log_def catch_emit_def)

section \<open>The read flag\<close>

lemma find_mem: "find P xs = Some x \<Longrightarrow> x \<in> set xs"
  by (auto simp: find_Some_iff)

lemma findById_mem: "findById db i = Inr (Some m) \<Longrightarrow> m \<in> set db"
  by (auto simp: findById_def split: option.splits dest: find_mem)

lemma save_keeps_read:
  assumes "Message_save now db m' = Inr db'" and "m \<in> set db"
    and "isRead m' = isRead m" and "m_id m' = m_id m"
  shows "\<forall>x'\<in>set db'. isRead x' \<longrightarrow> (\<exists>x\<in>set db. isRead x \<and> m_id x = m_id x')"
proof -
  have db': "db' = map (\<lambda>x. if m_id x = m_id m' then m'\<lparr>updatedAt := now\<rparr> else x) db"
    using assms(1) by (auto simp: Message_save_def split: if_splits)
  show ?thesis
    unfolding db' using assms(2,3,4) by auto
qed

lemma react_keeps_read:
  "\<forall>x'\<in>set (messagesDB (fst (message_react sid now d s))). isRead x' \<longrightarrow>
     (\<exists>x\<in>set (messagesDB s). isRead x \<and> m_id x = m_id x')"
proof (cases "message_react_body sid now d s")
  case (Threw e x)
  then have "fst (message_react sid now d s) = s"
    by (auto simp: message_react_def message_react_body_def catch_emit_def Let_def
          split: option.splits sum.splits)
  then show ?thesis by auto
next
  case (Done x)
  show ?thesis
  proof (cases "messagesDB (fst x) = messagesDB s")
    case True
    then show ?thesis using Done by (auto simp: message_react_def catch_emit_def)
  next
    case False
    then obtain p :: reactData and m rs where m: "findById (messagesDB s) (rc_messageId p) = Inr (Some m)"
      and sv: "Message_save now (messagesDB s) (m\<lparr>reactions := rs\<rparr>) = Inr (messagesDB (fst x))"
      using Done
      by (auto simp: message_react_body_def Let_def split: option.splits sum.splits)
    have "fst (message_react sid now d s) = fst x"
      using Done by (simp add: message_react_def catch_emit_def)
    then show ?thesis
      using save_keeps_read[OF sv findById_mem[OF m]] by simp
  qed
qed

lemma edit_keeps_read:
  "\<forall>x'\<in>set (messagesDB (fst (message_edit sid now d s))). isRead x' \<longrightarrow>
     (\<exists>x\<in>set (messagesDB s). isRead x \<and> m_id x = m_id x')"
proof (cases "message_edit_body sid now d s")
  case (Threw e x)
  then have "fst (message_edit sid now d s) = s"
    by (auto simp: message_edit_def message_edit_body_def catch_emit_def
          split: option.splits sum.splits if_splits)
  then show ?thesis by auto
next
  case (Done x)
  show ?thesis
  proof (cases "messagesDB (fst x) = messagesDB s")
    case True
    then show ?thesis using Done by (auto simp: message_edit_def catch_emit_def)
  next
    case False
    then obtain p :: editData and m t where m: "findById (messagesDB s) (e_messageId p) = Inr (Some m)"
      and sv: "Message_save now (messagesDB s) (m\<lparr>m_text := t, isEdited := True, editedAt := Some now\<rparr>)
                 = Inr (messagesDB (fst x))"
      using Done
      by (auto simp: message_edit_body_def split: option.splits sum.splits if_splits)
    have "fst (message_edit sid now d s) = fst x"
      using Done by (simp add: message_edit_def catch_emit_def)
    then show ?thesis
      using save_keeps_read[OF sv findById_mem[OF m]] by simp
  qed
qed

lemma delete_keeps_read:
  "\<forall>x'\<in>set (messagesDB (fst (message_delete sid now d s))). isRead x' \<longrightarrow>
     (\<exists>x\<in>set (messagesDB s). isRead x \<and> m_id x = m_id x')"
proof (cases "message_delete_body sid now d s")
  case (Threw e x)
  then have "fst (message_delete sid now d s) = s"
    by (auto simp: message_delete_def message_delete_body_def catch_emit_def
          split: option.splits sum.splits if_splits)
  then show ?thesis by auto
next
  case (Done x)
  show ?thesis
  proof (cases "messagesDB (fst x) = messagesDB s")
    case True
    then show ?thesis using Done by (auto simp: message_delete_def catch_emit_def)
  next
    case False
    then obtain p :: deleteData and m where m: "findById (messagesDB s) (dl_messageId p) = Inr (Some m)"
      and sv: "Message_save now (messagesDB s)
                 (m\<lparr>m_text := ''This message was deleted'', isDeleted := True, deletedAt := Some now\<rparr>)
                 = Inr (messagesDB (fst x))"
      using Done
      by (auto simp: message_delete_body_def split: option.splits sum.splits if_splits)
    have "fst (message_delete sid now d s) = fst x"
      using Done by (simp add: message_delete_def catch_emit_def)
    then show ?thesis
      using save_keeps_read[OF sv findById_mem[OF m]] by simp
  qed
qed

lemma Message_create_unread: "Message_create now newId db md = Inr m \<Longrightarrow> \<not> isRead m"
  by (auto simp: Message_create_def Let_def split: option.splits sum.splits if_splits)

lemma chat_message_keeps_read:
  "\<forall>x'\<in>set (messagesDB (fst (chat_message sid now newId d s))). isRead x' \<longrightarrow>
     (\<exists>x\<in>set (messagesDB s). isRead x \<and> m_id x = m_id x')"
proof (cases d)
  case None
  then show ?thesis
    by (auto simp: chat_message_def chat_message_body_def catch_emit_def)
next
  case (Some p)
  show ?thesis
  proof (cases "Message_create now newId (messagesDB s) (build_messageData p)")
    case (Inl e)
    then show ?thesis
      using Some by (auto simp: chat_message_def chat_message_body_def catch_emit_def)
  next
    case (Inr m)
    then show ?thesis
      using Some chat_message_stores[OF Inr, of sid] Message_create_unread[OF Inr] by auto
  qed
qed

lemma history_keeps_state: "fst (chat_get_history sid d s) = s"
  by (auto simp: chat_get_history_def chat_get_history_body_def catch_emit_def Let_def
        split: option.splits sum.splits)

lemma other_handlers_keep_messages:
  "messagesDB (fst (connection sid s)) = messagesDB s"
  "messagesDB (fst (user_join sid now u s)) = messagesDB s"
  "messagesDB (fst (webrtc_offer sid od s)) = messagesDB s"
  "messagesDB (fst (webrtc_answer sid ad s)) = messagesDB s"
  "messagesDB (fst (webrtc_ice_candidate sid icd s)) = messagesDB s"
  "messagesDB (fst (call_end sid ed s)) = messagesDB s"
  "messagesDB (fst (videoCallInvitation sid vd s)) = messagesDB s"
  "messagesDB (fst (joinVideoCallRoom sid jd s)) = messagesDB s"
  "messagesDB (fst (callUser sid cd s)) = messagesDB s"
  "messagesDB (fst (answerCall sid acd s)) = messagesDB s"
  "messagesDB (fst (callEnded sid s)) = messagesDB s"
  "messagesDB (fst (disconnect sid s)) = messagesDB s"
  by (auto simp: connection_def socket_join_def user_join_def user_join_body_def
        webrtc_offer_def webrtc_offer_body_def webrtc_answer_def webrtc_answer_body_def
        webrtc_ice_candidate_def webrtc_ice_candidate_body_def call_end_def call_end_body_def
        videoCallInvitation_def videoCallInvitation_body_def
        joinVideoCallRoom_def joinVideoCallRoom_body_def store_video_info_def
        callUser_def callUser_body_def answerCall_def answerCall_body_def callEnded_def
        disconnect_def disconnect_body_def leave_all_def
        catch_emit_def catch_log_def Let_def
        split: option.splits sum.splits)

lemma step_keeps_read:
  "\<forall>x'\<in>set (messagesDB (fst (step sid now ev s))). isRead x' \<longrightarrow>
     (\<exists>x\<in>set (messagesDB s). isRead x \<and> m_id x = m_id x')"
proof (cases ev)
  case (ChatMessageEv newId d)
  then show ?thesis using chat_message_keeps_read[of sid now newId d s] by simp
next
  case (ChatGetHistory d)
  then show ?thesis by (auto simp: history_keeps_state)
next
  case (MessageReact d)
  then show ?thesis using react_keeps_read[of sid now d s] by simp
next
  case (MessageEdit d)
  then show ?thesis using edit_keeps_read[of sid now d s] by simp
next
  case (MessageDelete d)
  then show ?thesis using delete_keeps_read[of sid now d s] by simp
qed (auto simp: other_handlers_keep_messages)

lemma run_unread:
  "list_all (\<lambda>m. \<not> isRead m) (messagesDB s) \<Longrightarrow> list_all (\<lambda>m. \<not> isRead m) (messagesDB (run evs s))"
proof (induction evs arbitrary: s)
  case Nil
  then show ?case by simp
next
  case (Cons a evs)
  obtain sid now ev where a: "a = (sid, now, ev)" by (cases a) auto
  have "list_all (\<lambda>m. \<not> isRead m) (messagesDB (fst (step sid now ev s)))"
    using Cons.prems step_keeps_read[of sid now ev s] by (auto simp: list_all_iff)
  then show ?case using Cons.IH a by simp
qed

text \<open>
  Claim C10. No handler sets the read flag: a message that carries the flag after an event was
  stored with the flag under the same id before it. Hence every message of every run from the
  empty store has the flag at its default \<^verbatim>\<open>false\<close>. The history handler leaves the whole
  state, and with it every field of every stored message, as it was.
\<close>

theorem isRead_never_set:
  "(\<forall>x'\<in>set (messagesDB (fst (step sid now ev s))). isRead x' \<longrightarrow>
       (\<exists>x\<in>set (messagesDB s). isRead x \<and> m_id x = m_id x'))
   \<and> list_all (\<lambda>m. \<not> isRead m) (messagesDB (run evs (init_state users)))
   \<and> fst (chat_get_history sid' d s) = s
   \<and> fst (step sid' now' (ChatGetHistory d) s) = s"
  using step_keeps_read[of sid now ev s] run_unread[of "init_state users" evs] history_keeps_state[of sid' d s]
  by (simp add: init_state_def)

lemma ex_state_read_edit:
  "messagesDB (fst (step ''c1'' 30 (MessageEdit (Some (ex_edit ex_u1 ''hello''))) ex_state_read))
     = [ex_msg\<lparr>isRead := True, m_text := ''hello'', isEdited := True, editedAt := Some 30, updatedAt := 30\<rparr>]"
proof -
  have f: "findById (messagesDB ex_state_read) (e_messageId (ex_edit ex_u1 ''hello'')) = Inr (Some (ex_msg\<lparr>isRead := True\<rparr>))"
    by (simp add: ex_state_read_def findById_def ex_edit_def)
  have v: "valid_message (ex_msg\<lparr>isRead := True\<rparr>)"
    using ex_msg_valid by (simp add: valid_message_def)
  have o: "e_userId (ex_edit ex_u1 ''hello'') = Some (senderId (ex_msg\<lparr>isRead := True\<rparr>))"
    "e_newText (ex_edit ex_u1 ''hello'') = Some ''hello''" "''hello'' \<noteq> []"
    by (simp_all add: ex_edit_def ex_msg_def)
  show ?thesis
    using message_edit_owner[OF f v o, of "''c1''" 30]
    by (simp add: ex_state_read_def)
qed

lemma ex_run_messages:
  "messagesDB (run [(''c1'', 5, ChatMessageEv ex_m1 (Some ex_chat)),
                    (''c1'', 30, MessageEdit (Some (ex_edit ex_u1 ''hello'')))] (init_state ex_users))
     = [ex_msg\<lparr>m_text := ''hello'', isEdited := True, editedAt := Some 30, updatedAt := 30\<rparr>]"
proof -
  let ?s1 = "fst (chat_message ''c1'' 5 ex_m1 (Some ex_chat) (init_state ex_users))"
  have c: "Message_create 5 ex_m1 (messagesDB (init_state ex_users)) (build_messageData ex_chat) = Inr ex_msg"
    using ex_create by (simp add: init_state_def)
  have db1: "messagesDB ?s1 = [ex_msg]"
    using chat_message_stores[OF c, of "''c1''"] by (simp add: init_state_def)
  have f: "findById (messagesDB ?s1) (e_messageId (ex_edit ex_u1 ''hello'')) = Inr (Some ex_msg)"
    unfolding db1 by (simp add: ex_findById ex_edit_def)
  have o: "e_userId (ex_edit ex_u1 ''hello'') = Some (senderId ex_msg)"
    "e_newText (ex_edit ex_u1 ''hello'') = Some ''hello''" "''hello'' \<noteq> []"
    by (simp_all add: ex_edit_def ex_msg_def)
  show ?thesis
    using message_edit_owner[OF f ex_msg_valid o, of "''c1''" 30] db1
    by simp
qed

theorem isRead_never_set_witness:
  "ex_msg\<lparr>isRead := True, m_text := ''hello'', isEdited := True, editedAt := Some 30, updatedAt := 30\<rparr>
     \<in> set (messagesDB (fst (step ''c1'' 30 (MessageEdit (Some (ex_edit ex_u1 ''hello''))) ex_state_read)))
   \<and> isRead (ex_msg\<lparr>isRead := True, m_text := ''hello'', isEdited := True, editedAt := Some 30, updatedAt := 30\<rparr>)
   \<and> (\<exists>x\<in>set (messagesDB ex_state_read). isRead x
         \<and> m_id x = m_id (ex_msg\<lparr>isRead := True, m_text := ''hello'', isEdited := True, editedAt := Some 30,
                                  updatedAt := 30\<rparr>))
   \<and> messagesDB (run [(''c1'', 5, ChatMessageEv ex_m1 (Some ex_chat)),
                       (''c1'', 30, MessageEdit (Some (ex_edit ex_u1 ''hello'')))] (init_state ex_users))
        = [ex_msg\<lparr>m_text := ''hello'', isEdited := True, editedAt := Some 30, updatedAt := 30\<rparr>]
   \<and> list_all (\<lambda>m. \<not> isRead m)
        (messagesDB (run [(''c1'', 5, ChatMessageEv ex_m1 (Some ex_chat)),
                          (''c1'', 30, MessageEdit (Some (ex_edit ex_u1 ''hello'')))] (init_state ex_users)))
   \<and> fst (chat_get_history ''s2'' (Some ex_hist) ex_state_read) = ex_state_read"
proof -
  let ?m = "ex_msg\<lparr>isRead := True, m_text := ''hello'', isEdited := True, editedAt := Some 30, updatedAt := 30\<rparr>"
  note t = isRead_never_set[where sid = "''c1''" and now = 30
             and ev = "MessageEdit (Some (ex_edit ex_u1 ''hello''))" and s = ex_state_read
             and evs = "[(''c1'', 5, ChatMessageEv ex_m1 (Some ex_chat)), (''c1'', 30, MessageEdit (Some (ex_edit ex_u1 ''hello'')))]"
             and users = ex_users and sid' = "''s2''" and d = "Some ex_hist"]
  have h1: "?m \<in> set (messagesDB (fst (step ''c1'' 30 (MessageEdit (Some (ex_edit ex_u1 ''hello''))) ex_state_read)))"
    unfolding ex_state_read_edit by simp
  have h2: "isRead ?m" by simp
  have c1: "\<exists>x\<in>set (messagesDB ex_state_read). isRead x \<and> m_id x = m_id ?m"
    using t h1 h2 by blast
  show ?thesis
    using h1 h2 c1 t ex_run_messages by simp
qed

section \<open>Stored documents satisfy the schema\<close>

text \<open>
  The theorems on reactions and edits speak of a stored message that satisfies the schema.
  Every message of every run from the empty store does: a document is validated whenever it
  is written.
\<close>

lemma Message_create_valid: "Message_create now newId db md = Inr m \<Longrightarrow> valid_message m"
  by (auto simp: Message_create_def Let_def split: option.splits sum.splits if_splits)

lemma Message_save_valid:
  assumes "Message_save now db m = Inr db'" and "list_all valid_message db"
  shows "list_all valid_message db'"
proof -
  have v: "valid_message m" and db': "db' = map (\<lambda>x. if m_id x = m_id m then m\<lparr>updatedAt := now\<rparr> else x) db"
    using assms(1) by (auto simp: Message_save_def split: if_splits)
  have "valid_message (m\<lparr>updatedAt := now\<rparr>)"
    using v by (simp add: valid_message_def)
  then show ?thesis
    unfolding db' using assms(2) by (auto simp: list_all_iff)
qed

lemma react_written:
  "messagesDB (fst (message_react sid now d s)) = messagesDB s
   \<or> (\<exists>m. Message_save now (messagesDB s) m = Inr (messagesDB (fst (message_react sid now d s))))"
  by (auto simp: message_react_def message_react_body_def catch_emit_def Let_def
        split: option.splits sum.splits)

lemma edit_written:
  "messagesDB (fst (message_edit sid now d s)) = messagesDB s
   \<or> (\<exists>m. Message_save now (messagesDB s) m = Inr (messagesDB (fst (message_edit sid now d s))))"
  by (auto simp: message_edit_def message_edit_body_def catch_emit_def
        split: option.splits sum.splits)

lemma delete_written:
  "messagesDB (fst (message_delete sid now d s)) = messagesDB s
   \<or> (\<exists>m. Message_save now (messagesDB s) m = Inr (messagesDB (fst (message_delete sid now d s))))"
  by (auto simp: message_delete_def message_delete_body_def catch_emit_def
        split: option.splits sum.splits)

lemma chat_message_written:
  "messagesDB (fst (chat_message sid now newId d s)) = messagesDB s
   \<or> (\<exists>m. valid_message m \<and> messagesDB (fst (chat_message sid now newId d s)) = messagesDB s @ [m])"
proof (cases d)
  case None
  then show ?thesis
    by (simp add: chat_message_def chat_message_body_def catch_emit_def)
next
  case (Some p)
  show ?thesis
  proof (cases "Message_create now newId (messagesDB s) (build_messageData p)")
    case (Inl e)
    then show ?thesis
      using Some by (simp add: chat_message_def chat_message_body_def catch_emit_def)
  next
    case (Inr m)
    then show ?thesis
      using Some chat_message_stores[OF Inr, of sid] Message_create_valid[OF Inr] by auto
  qed
qed

lemma step_valid:
  assumes "list_all valid_message (messagesDB s)"
  shows "list_all valid_message (messagesDB (fst (step sid now ev s)))"
proof (cases ev)
  case (ChatMessageEv newId d)
  then show ?thesis using chat_message_written[of sid now newId d s] assms by auto
next
  case (ChatGetHistory d)
  then show ?thesis using assms by (simp add: history_keeps_state)
next
  case (MessageReact d)
  then show ?thesis using react_written[of sid now d s] assms Message_save_valid by auto
next
  case (MessageEdit d)
  then show ?thesis using edit_written[of sid now d s] assms Message_save_valid by auto
next
  case (MessageDelete d)
  then show ?thesis using delete_written[of sid now d s] assms Message_save_valid by auto
qed (use assms in \<open>auto simp: other_handlers_keep_messages\<close>)

lemma run_valid:
  "list_all valid_message (messagesDB s) \<Longrightarrow> list_all valid_message (messagesDB (run evs s))"
proof (induction evs arbitrary: s)
  case Nil
  then show ?case by simp
next
  case (Cons a evs)
  obtain sid now ev where a: "a = (sid, now, ev)" by (cases a) auto
  show ?case using Cons.IH[OF step_valid[OF Cons.prems, of sid now ev]] a by simp
qed

lemma reachable_valid: "list_all valid_message (messagesDB (run evs (init_state users)))"
  by (rule run_valid) (simp add: init_state_def)

end
